theory Spec2Isabelle
  imports Main "HOL-Library.Word"
begin

unbundle bit_operations_syntax

section \<open>The code cache of deps/v8/src/snapshot/code-serializer.cc\<close>

text \<open>
  A shallow embedding of the code cache codec: the two-phase sanity check of a cached
  buffer, the synchronous and the off-thread deserialization entry points, and the
  object dispatch of the serializer. A function that mutates an object through a
  pointer returns the updated object; a \<^verbatim>\<open>CHECK\<close> that fails ends the run with
  \<open>Fatal\<close>. What the file uses and does not define (the header constants, the
  flags, the generic object serializer and deserializer, logging) is a field of a
  record of externals, so every theorem holds for all of them.
\<close>

subsection \<open>Cached data and its header\<close>

type_synonym byte = "8 word"
type_synonym uint32_t = "32 word"

text \<open>The enum \<^verbatim>\<open>SerializedCodeSanityCheckResult\<close>, named as the source names it.\<close>

datatype SerializedCodeSanityCheckResult =
    kSuccess
  | kMagicNumberMismatch
  | kVersionMismatch
  | kSourceMismatch
  | kFlagsMismatch
  | kChecksumMismatch
  | kInvalidHeader
  | kLengthMismatch

text \<open>
  \<^verbatim>\<open>AlignedCachedData\<close>: the caller's buffer. A byte pointer is the byte sequence
  it addresses, \<open>None\<close> for \<^verbatim>\<open>nullptr\<close>. A member \<^verbatim>\<open>x_\<close> of the class is the
  field \<open>cd_x\<close> here (\<open>sd_x\<close> for \<^verbatim>\<open>SerializedData\<close>): a name cannot end in an
  underscore.
\<close>

record AlignedCachedData =
  cd_owns_data :: bool
  cd_rejected :: bool
  cd_data :: "byte list option"
  cd_length :: int

text \<open>
  Modelled from the spec: \<^verbatim>\<open>AlignedCachedData::Reject\<close>, a member that
  code-serializer.h defines; the buffer "is marked rejected (a sticky flag on the
  buffer)".
\<close>

definition Reject :: "AlignedCachedData \<Rightarrow> AlignedCachedData" where
  "Reject cached_data = cached_data\<lparr>cd_rejected := True\<rparr>"

text \<open>\<^verbatim>\<open>SerializedData\<close>, the base of \<^verbatim>\<open>SerializedCodeData\<close>: a pointer and a size.\<close>

record SerializedData =
  sd_data :: "byte list option"
  sd_size :: uint32_t

text \<open>
  The constants of code-serializer.h, the hashes of the running build, the checksum
  flag and the raw header reads: all used by the checks below and defined elsewhere.
\<close>

record Build =
  kMagicNumber :: uint32_t
  kHeaderSize :: uint32_t
  kVersionHashOffset :: uint32_t
  kSourceHashOffset :: uint32_t
  kFlagHashOffset :: uint32_t
  kPayloadLengthOffset :: uint32_t
  kChecksumOffset :: uint32_t
  Version_Hash :: uint32_t
  FlagList_Hash :: uint32_t
  FLAG_verify_snapshot_checksum :: bool
  GetMagicNumber :: "SerializedData \<Rightarrow> uint32_t"
  GetHeaderValue :: "SerializedData \<Rightarrow> uint32_t \<Rightarrow> uint32_t"
  Checksum :: "byte list \<Rightarrow> uint32_t"
  ChecksummedContent :: "SerializedData \<Rightarrow> byte list"

text \<open>\<^verbatim>\<open>SerializedCodeData(AlignedCachedData* data)\<close> and \<^verbatim>\<open>SerializedCodeData(nullptr, 0)\<close>.\<close>

definition SerializedCodeData :: "AlignedCachedData \<Rightarrow> SerializedData" where
  "SerializedCodeData data = \<lparr>sd_data = cd_data data, sd_size = word_of_int (cd_length data)\<rparr>"

definition SerializedCodeData_null :: SerializedData where
  "SerializedCodeData_null = \<lparr>sd_data = None, sd_size = 0\<rparr>"

subsection \<open>The sanity check\<close>

definition SanityCheckJustSource ::
  "Build \<Rightarrow> SerializedData \<Rightarrow> uint32_t \<Rightarrow> SerializedCodeSanityCheckResult" where
  "SanityCheckJustSource B this expected_source_hash =
     (let source_hash = GetHeaderValue B this (kSourceHashOffset B) in
      if source_hash \<noteq> expected_source_hash then kSourceMismatch else kSuccess)"

definition SanityCheckWithoutSource ::
  "Build \<Rightarrow> SerializedData \<Rightarrow> SerializedCodeSanityCheckResult" where
  "SanityCheckWithoutSource B this =
     (if sd_size this < kHeaderSize B then kInvalidHeader
      else let magic_number = GetMagicNumber B this in
      if magic_number \<noteq> kMagicNumber B then kMagicNumberMismatch
      else let version_hash = GetHeaderValue B this (kVersionHashOffset B) in
      if version_hash \<noteq> Version_Hash B then kVersionMismatch
      else let flags_hash = GetHeaderValue B this (kFlagHashOffset B) in
      if flags_hash \<noteq> FlagList_Hash B then kFlagsMismatch
      else let payload_length = GetHeaderValue B this (kPayloadLengthOffset B);
               max_payload_length = sd_size this - kHeaderSize B in
      if payload_length > max_payload_length then kLengthMismatch
      else if FLAG_verify_snapshot_checksum B \<and>
              Checksum B (ChecksummedContent B this)
                \<noteq> GetHeaderValue B this (kChecksumOffset B)
           then kChecksumMismatch
      else kSuccess)"

definition SanityCheck ::
  "Build \<Rightarrow> SerializedData \<Rightarrow> uint32_t \<Rightarrow> SerializedCodeSanityCheckResult" where
  "SanityCheck B this expected_source_hash =
     (let result = SanityCheckWithoutSource B this in
      if result \<noteq> kSuccess then result
      else SanityCheckJustSource B this expected_source_hash)"

text \<open>
  The three constructors from a cached buffer. Each returns the data it built, the
  buffer (rejected or not) and the value it stored through \<^verbatim>\<open>rejection_result\<close>.
\<close>

definition FromCachedData ::
  "Build \<Rightarrow> AlignedCachedData \<Rightarrow> uint32_t
     \<Rightarrow> SerializedData \<times> AlignedCachedData \<times> SerializedCodeSanityCheckResult" where
  "FromCachedData B cached_data expected_source_hash =
     (let scd = SerializedCodeData cached_data;
          rejection_result = SanityCheck B scd expected_source_hash in
      if rejection_result \<noteq> kSuccess
      then (SerializedCodeData_null, Reject cached_data, rejection_result)
      else (scd, cached_data, rejection_result))"

definition FromCachedDataWithoutSource ::
  "Build \<Rightarrow> AlignedCachedData
     \<Rightarrow> SerializedData \<times> AlignedCachedData \<times> SerializedCodeSanityCheckResult" where
  "FromCachedDataWithoutSource B cached_data =
     (let scd = SerializedCodeData cached_data;
          rejection_result = SanityCheckWithoutSource B scd in
      if rejection_result \<noteq> kSuccess
      then (SerializedCodeData_null, Reject cached_data, rejection_result)
      else (scd, cached_data, rejection_result))"

text \<open>
  \<^verbatim>\<open>FromPartiallySanityCheckedCachedData\<close> reads \<^verbatim>\<open>*rejection_result\<close> before it
  writes it: the value on entry is the fourth argument.
\<close>

definition FromPartiallySanityCheckedCachedData ::
  "Build \<Rightarrow> AlignedCachedData \<Rightarrow> uint32_t \<Rightarrow> SerializedCodeSanityCheckResult
     \<Rightarrow> SerializedData \<times> AlignedCachedData \<times> SerializedCodeSanityCheckResult" where
  "FromPartiallySanityCheckedCachedData B cached_data expected_source_hash rejection_result =
     (if rejection_result \<noteq> kSuccess
      then (SerializedCodeData_null, Reject cached_data, rejection_result)
      else let scd = SerializedCodeData cached_data;
               rejection_result' = SanityCheckJustSource B scd expected_source_hash in
      if rejection_result' \<noteq> kSuccess
      then (SerializedCodeData_null, Reject cached_data, rejection_result')
      else (scd, cached_data, rejection_result'))"

text \<open>
  Phase A in the words of the specification, over the integers: the sizes are numbers,
  and the bound on the payload is \<open>buffer_size - header_size\<close>.
\<close>

definition PhaseA_spec :: "Build \<Rightarrow> SerializedData \<Rightarrow> SerializedCodeSanityCheckResult" where
  "PhaseA_spec B d =
     (if uint (sd_size d) < uint (kHeaderSize B) then kInvalidHeader
      else if GetMagicNumber B d \<noteq> kMagicNumber B then kMagicNumberMismatch
      else if GetHeaderValue B d (kVersionHashOffset B) \<noteq> Version_Hash B then kVersionMismatch
      else if GetHeaderValue B d (kFlagHashOffset B) \<noteq> FlagList_Hash B then kFlagsMismatch
      else if uint (GetHeaderValue B d (kPayloadLengthOffset B))
                > uint (sd_size d) - uint (kHeaderSize B) then kLengthMismatch
      else if FLAG_verify_snapshot_checksum B \<and>
              Checksum B (ChecksummedContent B d) \<noteq> GetHeaderValue B d (kChecksumOffset B)
           then kChecksumMismatch
      else kSuccess)"

subsection \<open>The heap\<close>

text \<open>
  Modelled from the spec: the records of the object graph, whose classes
  (objects/script.h, objects/shared-function-info.h, objects/debug-objects.h) the file
  only uses. "Each record has a kind tag and a mapping from field name to either a
  scalar, a byte blob, or an ownership edge to another record." A value is a machine
  word: the address of a record, or a scalar.
\<close>

type_synonym Address = nat
type_synonym Object = nat

datatype InstanceType =
    CODE_TYPE
  | SCRIPT_TYPE
  | SHARED_FUNCTION_INFO_TYPE
  | DEBUG_INFO_TYPE
  | BYTECODE_ARRAY_TYPE
  | INTERPRETER_DATA_TYPE
  | MAP_TYPE
  | JS_GLOBAL_PROXY_TYPE
  | JS_GLOBAL_OBJECT_TYPE
  | JS_FUNCTION_TYPE
  | CONTEXT_TYPE
  | STRING_TYPE
  | FIXED_ARRAY_TYPE
  | ODDBALL_TYPE
  | SYMBOL_TYPE

datatype Field =
    kContextDataOffset
  | kHostDefinedOptionsOffset
  | kSourceOffset
  | kNameOffset
  | kScriptOrDebugInfoOffset
  | kFunctionDataOffset
  | kScriptOffset
  | kOriginalBytecodeArrayOffset
  | kDebugBytecodeArrayOffset
  | kBytecodeArrayOffset
  | kLengthOffset
  | kLineEndsOffset

record HeapObject =
  instance_type :: InstanceType
  slot :: "Field \<Rightarrow> Object"

type_synonym Heap = "Address \<Rightarrow> HeapObject"

definition READ_FIELD :: "Heap \<Rightarrow> Object \<Rightarrow> Field \<Rightarrow> Object" where
  "READ_FIELD h p f = slot (h p) f"

definition WRITE_FIELD :: "Heap \<Rightarrow> Object \<Rightarrow> Field \<Rightarrow> Object \<Rightarrow> Heap" where
  "WRITE_FIELD h p f v = h(p := (h p)\<lparr>slot := (slot (h p))(f := v)\<rparr>)"

text \<open>
  Modelled from the spec: \<^verbatim>\<open>String::length\<close> (an \<^verbatim>\<open>int\<close>, which
  \<^verbatim>\<open>SourceHash\<close> stores in a \<^verbatim>\<open>uint32_t\<close>), \<^verbatim>\<open>Script::set_source\<close> and the
  options of a script's origin, of which the hash reads \<^verbatim>\<open>IsModule\<close>: the
  "length_of(source_text)", the installing of "the true source text onto the one script
  record", and the "module_flag".
\<close>

definition String_length :: "Heap \<Rightarrow> Object \<Rightarrow> uint32_t" where
  "String_length h str = word_of_nat (READ_FIELD h str kLengthOffset)"

definition set_source :: "Heap \<Rightarrow> Object \<Rightarrow> Object \<Rightarrow> Heap" where
  "set_source h script v = WRITE_FIELD h script kSourceOffset v"

record ScriptOriginOptions =
  IsSharedCrossOrigin :: bool
  IsOpaque :: bool
  IsWasm :: bool
  IsModule :: bool

subsection \<open>The source hash\<close>

definition kModuleFlagMask :: uint32_t where
  "kModuleFlagMask = push_bit 31 1"

definition SourceHash :: "Heap \<Rightarrow> Object \<Rightarrow> ScriptOriginOptions \<Rightarrow> uint32_t" where
  "SourceHash h source origin_options =
     (let source_length = String_length h source;
          is_module = (if IsModule origin_options then kModuleFlagMask else 0) in
      source_length OR is_module)"

subsection \<open>Isolates, handles and the externals of deserialization\<close>

text \<open>
  A handle is the object it refers to and the place that keeps it alive: a handle
  scope of the main thread, a handle scope of the background thread, or a set of
  persistent handles.
\<close>

datatype HandleStorage = InHandleScope | InLocalHandleScope | InPersistentHandles

datatype Handle = Handle (storage: HandleStorage) (deref: Object)

record ReadOnlyRoots =
  undefined_value :: Object
  uninitialized_symbol :: Object
  empty_fixed_array :: Object
  empty_string :: Object

datatype CodeEventTag = SCRIPT_TAG | FUNCTION_TAG

text \<open>
  What the logger and the profiler have received: a function event (its script and its
  function) or a code-create event (its tag, its code and its function).
\<close>

datatype LogEvent =
    FunctionEvent Object Object
  | CodeCreateEvent CodeEventTag Object Object

text \<open>
  The isolate: its heap, the script list (a \<^verbatim>\<open>WeakArrayList\<close>, here the list of its
  entries), the samples of the counter \<^verbatim>\<open>code_cache_reject_reason\<close> in the order of
  their arrival, the pages of the read-only space, and the events that its logger and
  its profiler have received.
\<close>

record Isolate =
  heap :: Heap
  roots :: ReadOnlyRoots
  script_list :: "Object list"
  code_cache_reject_reason :: "int list"
  read_only_space_pages :: "Address list"
  logger_events :: "LogEvent list"

record LocalIsolate =
  local_heap :: Heap
  local_persistent_handles :: "Handle list option"

text \<open>\<^verbatim>\<open>CodeSerializer::OffThreadDeserializeData\<close>.\<close>

record OffThreadDeserializeData =
  maybe_result :: "Handle option"
  scripts :: "Handle list"
  persistent_handles :: "Handle list option"
  sanity_check_result :: SerializedCodeSanityCheckResult

text \<open>
  The flags and the target macro that the file tests, and what the deserialization
  entry points call and do not define: the two
  object deserializers, the thread start, the conversion of a failure reason to its
  number, and, for \<^verbatim>\<open>FinalizeDeserialization\<close>, the logger, the profiler and the
  script's line ends.
\<close>

record Flags =
  FLAG_stress_background_compile :: bool
  FLAG_log_function_events :: bool
  FLAG_interpreted_frames_native_stack :: bool
  V8_TARGET_ARCH_ARM :: bool

record Runtime =
  Thread_Start :: bool
  static_cast_int :: "SerializedCodeSanityCheckResult \<Rightarrow> int"
  ObjectDeserializer_DeserializeSharedFunctionInfo ::
    "Isolate \<Rightarrow> SerializedData \<Rightarrow> Object \<Rightarrow> Isolate \<times> Handle option"
  OffThreadObjectDeserializer_DeserializeSharedFunctionInfo ::
    "LocalIsolate \<Rightarrow> SerializedData \<Rightarrow> LocalIsolate \<times> Handle option \<times> Handle list"
  SharedFunctionInfo_script :: "Heap \<Rightarrow> Object \<Rightarrow> Object"
  is_listening_to_code_events :: "Isolate \<Rightarrow> bool"
  is_profiling :: "Isolate \<Rightarrow> bool"
  IsListeningToCodeEvents :: "Isolate \<Rightarrow> bool"
  NeedsSourcePositionsForProfiling :: "Isolate \<Rightarrow> bool"
  ScriptIterator :: "Isolate \<Rightarrow> Object \<Rightarrow> Object list"
  HasBytecodeArray :: "Isolate \<Rightarrow> Object \<Rightarrow> bool"
  NewInterpreterData :: "Isolate \<Rightarrow> Object \<Rightarrow> Isolate \<times> Object"
  is_compiled :: "Isolate \<Rightarrow> Object \<Rightarrow> bool"
  is_toplevel :: "Isolate \<Rightarrow> Object \<Rightarrow> bool"
  abstract_code :: "Isolate \<Rightarrow> Object \<Rightarrow> Object"
  EnsureSourcePositionsAvailable :: "Isolate \<Rightarrow> Object \<Rightarrow> Isolate"
  Script_InitLineEnds :: "Isolate \<Rightarrow> Object \<Rightarrow> Isolate"
  LOG_FunctionEvent :: "Isolate \<Rightarrow> Object \<Rightarrow> Object \<Rightarrow> Object \<Rightarrow> Isolate"
  PROFILE_CodeCreateEvent ::
    "Isolate \<Rightarrow> CodeEventTag \<Rightarrow> Object \<Rightarrow> Object \<Rightarrow> Object \<Rightarrow> Object \<Rightarrow> Isolate"

text \<open>
  A run ends by returning or in a failed \<^verbatim>\<open>CHECK\<close>, which aborts the process; either
  way it ends in a state, \<open>exit_state\<close>.
\<close>

datatype 'a Exit = is_Return: Return (exit_state: 'a) | Fatal (exit_state: 'a)

text \<open>
  Modelled from the spec: the kind test \<^verbatim>\<open>IsString\<close>, the function \<^verbatim>\<open>handle\<close> that
  makes a handle in the current scope of the main thread,
  \<^verbatim>\<open>LocalHeap::NewPersistentMaybeHandle\<close>, \<^verbatim>\<open>LocalHeap::DetachPersistentHandles\<close> and
  \<^verbatim>\<open>WeakArrayList::AddToEnd\<close>, members of the heap's classes. The persistent handle
  set is "the set of live references a decode pass produces that must survive a
  thread/arena boundary"; Start is to "detach all handles it created into a
  transferable PersistentHandleSet"; Finish is to "re-attach the transferred
  PersistentHandleSet's handles to ordinary shared ownership"; the registry has
  \<^verbatim>\<open>append(script)\<close>.
\<close>

definition IsString :: "Heap \<Rightarrow> Object \<Rightarrow> bool" where
  "IsString h obj = (instance_type (h obj) = STRING_TYPE)"

definition handle :: "Object \<Rightarrow> Handle" where
  "handle obj = Handle InHandleScope obj"

definition NewPersistentMaybeHandle ::
  "LocalIsolate \<Rightarrow> Handle option \<Rightarrow> LocalIsolate \<times> Handle option" where
  "NewPersistentMaybeHandle li maybe_handle =
     (case maybe_handle of
        None \<Rightarrow> (li, None)
      | Some h \<Rightarrow>
          (let p = Handle InPersistentHandles (deref h);
               ps = (case local_persistent_handles li of None \<Rightarrow> [] | Some hs \<Rightarrow> hs)
           in (li\<lparr>local_persistent_handles := Some (ps @ [p])\<rparr>, Some p)))"

definition DetachPersistentHandles :: "LocalIsolate \<Rightarrow> LocalIsolate \<times> Handle list option" where
  "DetachPersistentHandles li =
     (li\<lparr>local_persistent_handles := None\<rparr>, local_persistent_handles li)"

definition WeakArrayList_AddToEnd :: "Object list \<Rightarrow> Object \<Rightarrow> Object list" where
  "WeakArrayList_AddToEnd list v = list @ [v]"

subsection \<open>Finalization\<close>

text \<open>
  The timer and the lines printed under \<^verbatim>\<open>FLAG_profile_deserialization\<close> are left
  out: they change no state that the functions read.
\<close>

definition script_name_or_empty :: "Isolate \<Rightarrow> Object \<Rightarrow> Object" where
  "script_name_or_empty isolate script =
     (if IsString (heap isolate) (READ_FIELD (heap isolate) script kNameOffset)
      then READ_FIELD (heap isolate) script kNameOffset
      else empty_string (roots isolate))"

definition CreateInterpreterDataForDeserializedCode ::
  "Runtime \<Rightarrow> Isolate \<Rightarrow> Handle \<Rightarrow> bool \<Rightarrow> Isolate" where
  "CreateInterpreterDataForDeserializedCode R isolate sfi log_code_creation =
     (let script = SharedFunctionInfo_script R (heap isolate) (deref sfi);
          name_handle = script_name_or_empty isolate script
      in foldl
           (\<lambda>iso shared_info.
              if \<not> HasBytecodeArray R iso shared_info then iso
              else (let (iso1, code) = NewInterpreterData R iso shared_info in
                    if \<not> log_code_creation then iso1
                    else PROFILE_CodeCreateEvent R iso1 FUNCTION_TAG code shared_info
                           name_handle script))
           isolate (ScriptIterator R isolate script))"

definition FinalizeDeserialization ::
  "Flags \<Rightarrow> Runtime \<Rightarrow> Isolate \<Rightarrow> Handle \<Rightarrow> Isolate" where
  "FinalizeDeserialization F R isolate result =
     (let log_code_creation =
            (is_listening_to_code_events R isolate \<or> is_profiling R isolate \<or>
             IsListeningToCodeEvents R isolate);
          isolate1 =
            (if \<not> V8_TARGET_ARCH_ARM F \<and> FLAG_interpreted_frames_native_stack F
             then CreateInterpreterDataForDeserializedCode R isolate result log_code_creation
             else isolate);
          needs_source_positions = NeedsSourcePositionsForProfiling R isolate1;
          isolate2 =
            (if log_code_creation \<or> FLAG_log_function_events F then
               (let script = SharedFunctionInfo_script R (heap isolate1) (deref result);
                    name = script_name_or_empty isolate1 script;
                    isolate_a =
                      (if FLAG_log_function_events F
                       then LOG_FunctionEvent R isolate1 script (deref result) name
                       else isolate1)
                in if log_code_creation then
                     (let isolate_b = Script_InitLineEnds R isolate_a script in
                      foldl
                        (\<lambda>iso info.
                           if is_compiled R iso info then
                             (let iso' = (if needs_source_positions
                                          then EnsureSourcePositionsAvailable R iso info
                                          else iso)
                              in PROFILE_CodeCreateEvent R iso'
                                   (if is_toplevel R iso' info then SCRIPT_TAG else FUNCTION_TAG)
                                   (abstract_code R iso' info) info name script)
                           else iso)
                        isolate_b (ScriptIterator R isolate_b script))
                   else isolate_a)
             else isolate1)
      in if needs_source_positions
         then Script_InitLineEnds R isolate2
                (SharedFunctionInfo_script R (heap isolate2) (deref result))
         else isolate2)"

subsection \<open>Deserialization, off the main thread and on it\<close>

definition StartDeserializeOffThread ::
  "Runtime \<Rightarrow> Build \<Rightarrow> LocalIsolate \<Rightarrow> AlignedCachedData
     \<Rightarrow> OffThreadDeserializeData \<times> LocalIsolate \<times> AlignedCachedData" where
  "StartDeserializeOffThread R B local_isolate cached_data =
     (let (scd, cached_data', r) = FromCachedDataWithoutSource B cached_data;
          result = \<lparr>maybe_result = None, scripts = [], persistent_handles = None,
                    sanity_check_result = r\<rparr>
      in if sanity_check_result result \<noteq> kSuccess then (result, local_isolate, cached_data')
         else (let (li1, local_maybe_result, scripts') =
                     OffThreadObjectDeserializer_DeserializeSharedFunctionInfo R local_isolate scd;
                   (li2, persistent_result) = NewPersistentMaybeHandle li1 local_maybe_result;
                   (li3, detached) = DetachPersistentHandles li2
               in (result\<lparr>scripts := scripts', maybe_result := persistent_result,
                          persistent_handles := detached\<rparr>, li3, cached_data')))"

definition FinishOffThreadDeserialize ::
  "Flags \<Rightarrow> Runtime \<Rightarrow> Build \<Rightarrow> Isolate \<Rightarrow> OffThreadDeserializeData \<Rightarrow> AlignedCachedData
     \<Rightarrow> Object \<Rightarrow> ScriptOriginOptions \<Rightarrow> Isolate \<times> AlignedCachedData \<times> Handle option" where
  "FinishOffThreadDeserialize F R B isolate data cached_data source origin_options =
     (let (scd, cached_data', sanity_check_result') =
            FromPartiallySanityCheckedCachedData B cached_data
              (SourceHash (heap isolate) source origin_options) (sanity_check_result data)
      in if sanity_check_result' \<noteq> kSuccess
         then (isolate\<lparr>code_cache_reject_reason :=
                   code_cache_reject_reason isolate @ [static_cast_int R sanity_check_result']\<rparr>,
               cached_data', None)
         else (case maybe_result data of
                 None \<Rightarrow> (isolate, cached_data', None)
               | Some persistent_result \<Rightarrow>
                   (let result = handle (deref persistent_result);
                        h1 = set_source (heap isolate)
                               (SharedFunctionInfo_script R (heap isolate) (deref result)) source;
                        list = foldl (\<lambda>l script. WeakArrayList_AddToEnd l (deref script))
                                 (script_list isolate) (scripts data);
                        isolate1 = isolate\<lparr>heap := h1, script_list := list\<rparr>
                    in (FinalizeDeserialization F R isolate1 result, cached_data', Some result))))"

text \<open>
  \<^verbatim>\<open>Deserialize\<close>. Under \<^verbatim>\<open>FLAG_stress_background_compile\<close> it starts a thread,
  joins it and finishes: the thread's local isolate works on the isolate's heap, and
  the heap it leaves is the isolate's when the thread has joined.
\<close>

definition Deserialize ::
  "Flags \<Rightarrow> Runtime \<Rightarrow> Build \<Rightarrow> Isolate \<Rightarrow> AlignedCachedData \<Rightarrow> Object
     \<Rightarrow> ScriptOriginOptions \<Rightarrow> (Isolate \<times> AlignedCachedData \<times> Handle option) Exit" where
  "Deserialize F R B isolate cached_data source origin_options =
     (if FLAG_stress_background_compile F then
        (if \<not> Thread_Start R then Fatal (isolate, cached_data, None)
         else (let local_isolate = \<lparr>local_heap = heap isolate, local_persistent_handles = None\<rparr>;
                   (off_thread_data, li, cached_data') =
                     StartDeserializeOffThread R B local_isolate cached_data
               in Return (FinishOffThreadDeserialize F R B (isolate\<lparr>heap := local_heap li\<rparr>)
                            off_thread_data cached_data' source origin_options)))
      else
        (let (scd, cached_data', sanity_check_result) =
               FromCachedData B cached_data (SourceHash (heap isolate) source origin_options)
         in if sanity_check_result \<noteq> kSuccess
            then Return (isolate\<lparr>code_cache_reject_reason :=
                           code_cache_reject_reason isolate @ [static_cast_int R sanity_check_result]\<rparr>,
                         cached_data', None)
            else (let (isolate1, maybe_result) =
                        ObjectDeserializer_DeserializeSharedFunctionInfo R isolate scd source
                  in case maybe_result of
                       None \<Rightarrow> Return (isolate1, cached_data', None)
                     | Some result \<Rightarrow>
                         Return (FinalizeDeserialization F R isolate1 result, cached_data',
                                 Some result))))"

subsection \<open>The serializer\<close>

text \<open>
  The sink is the sequence of what was put into it. The serializer is its isolate, its
  sink, its source hash and the state of its base class \<^verbatim>\<open>Serializer\<close> (the hot
  objects, the reference map), of a type the file never looks into.
\<close>

datatype SinkItem = Put byte | PutInt nat

record 'b CodeSerializer =
  cs_isolate :: Isolate
  cs_sink :: "SinkItem list"
  cs_source_hash :: uint32_t
  cs_base :: 'b

text \<open>
  What \<^verbatim>\<open>SerializeObjectImpl\<close> calls and does not define: the three lookups of the
  base class, the read-only heap's membership test, the chunk of an address and the
  offset in it, the elision predicate, \<^verbatim>\<open>Serializer::SerializeObject\<close>,
  \<^verbatim>\<open>ObjectSerializer::Serialize\<close> and the two rehashing predicates.
\<close>

record 'b SerializerExt =
  kReadOnlyHeapRef :: byte
  SerializeHotObject :: "'b CodeSerializer \<Rightarrow> Object \<Rightarrow> bool \<times> 'b CodeSerializer"
  SerializeRoot :: "'b CodeSerializer \<Rightarrow> Object \<Rightarrow> bool \<times> 'b CodeSerializer"
  SerializeBackReference :: "'b CodeSerializer \<Rightarrow> Object \<Rightarrow> bool \<times> 'b CodeSerializer"
  ReadOnlyHeap_Contains :: "Isolate \<Rightarrow> Object \<Rightarrow> bool"
  BasicMemoryChunk_FromAddress :: "Address \<Rightarrow> Address"
  Offset :: "Address \<Rightarrow> Address \<Rightarrow> nat"
  ElideObject :: "'b CodeSerializer \<Rightarrow> Object \<Rightarrow> bool"
  SerializeObject :: "'b CodeSerializer \<Rightarrow> Object \<Rightarrow> 'b CodeSerializer Exit"
  ObjectSerializer_Serialize :: "'b CodeSerializer \<Rightarrow> Object \<Rightarrow> 'b CodeSerializer Exit"
  NeedsRehashing :: "Heap \<Rightarrow> Object \<Rightarrow> bool"
  CanBeRehashed :: "Heap \<Rightarrow> Object \<Rightarrow> bool"

definition update_heap :: "(Heap \<Rightarrow> Heap) \<Rightarrow> 'b CodeSerializer \<Rightarrow> 'b CodeSerializer" where
  "update_heap f s = s\<lparr>cs_isolate := (cs_isolate s)\<lparr>heap := f (heap (cs_isolate s))\<rparr>\<rparr>"

definition the_heap :: "'b CodeSerializer \<Rightarrow> Heap" where
  "the_heap s = heap (cs_isolate s)"

text \<open>
  Modelled from the spec: the accessors of the Script, SharedFunctionInfo, DebugInfo
  and InterpreterData records and the kind tests, which the object headers define. A
  Script has "an opaque context pointer and a host-options list"; a function-metadata
  record has its debug linkage and its active bytecode, and the debug record holds
  "the debug-specific bytecode variant" and "the original (pre-instrumentation)
  bytecode".
\<close>

definition IsCode :: "Heap \<Rightarrow> Object \<Rightarrow> bool" where
  "IsCode h obj = (instance_type (h obj) = CODE_TYPE)"

definition IsScript :: "Heap \<Rightarrow> Object \<Rightarrow> bool" where
  "IsScript h obj = (instance_type (h obj) = SCRIPT_TYPE)"

definition IsSharedFunctionInfo :: "Heap \<Rightarrow> Object \<Rightarrow> bool" where
  "IsSharedFunctionInfo h obj = (instance_type (h obj) = SHARED_FUNCTION_INFO_TYPE)"

definition IsInterpreterData :: "Heap \<Rightarrow> Object \<Rightarrow> bool" where
  "IsInterpreterData h obj = (instance_type (h obj) = INTERPRETER_DATA_TYPE)"

definition IsMap :: "Heap \<Rightarrow> Object \<Rightarrow> bool" where
  "IsMap h obj = (instance_type (h obj) = MAP_TYPE)"

definition IsJSGlobalProxy :: "Heap \<Rightarrow> Object \<Rightarrow> bool" where
  "IsJSGlobalProxy h obj = (instance_type (h obj) = JS_GLOBAL_PROXY_TYPE)"

definition IsJSGlobalObject :: "Heap \<Rightarrow> Object \<Rightarrow> bool" where
  "IsJSGlobalObject h obj = (instance_type (h obj) = JS_GLOBAL_OBJECT_TYPE)"

definition IsJSFunction :: "Heap \<Rightarrow> Object \<Rightarrow> bool" where
  "IsJSFunction h obj = (instance_type (h obj) = JS_FUNCTION_TYPE)"

definition IsContext :: "Heap \<Rightarrow> Object \<Rightarrow> bool" where
  "IsContext h obj = (instance_type (h obj) = CONTEXT_TYPE)"

definition context_data :: "Heap \<Rightarrow> Object \<Rightarrow> Object" where
  "context_data h script = READ_FIELD h script kContextDataOffset"

definition set_context_data :: "Heap \<Rightarrow> Object \<Rightarrow> Object \<Rightarrow> Heap" where
  "set_context_data h script v = WRITE_FIELD h script kContextDataOffset v"

definition host_defined_options :: "Heap \<Rightarrow> Object \<Rightarrow> Object" where
  "host_defined_options h script = READ_FIELD h script kHostDefinedOptionsOffset"

definition set_host_defined_options :: "Heap \<Rightarrow> Object \<Rightarrow> Object \<Rightarrow> Heap" where
  "set_host_defined_options h script v = WRITE_FIELD h script kHostDefinedOptionsOffset v"

definition script_or_debug_info :: "Heap \<Rightarrow> Object \<Rightarrow> Object" where
  "script_or_debug_info h sfi = READ_FIELD h sfi kScriptOrDebugInfoOffset"

definition set_script_or_debug_info :: "Heap \<Rightarrow> Object \<Rightarrow> Object \<Rightarrow> Heap" where
  "set_script_or_debug_info h sfi v = WRITE_FIELD h sfi kScriptOrDebugInfoOffset v"

definition HasDebugInfo :: "Heap \<Rightarrow> Object \<Rightarrow> bool" where
  "HasDebugInfo h sfi = (instance_type (h (script_or_debug_info h sfi)) = DEBUG_INFO_TYPE)"

definition GetDebugInfo :: "Heap \<Rightarrow> Object \<Rightarrow> Object" where
  "GetDebugInfo h sfi = script_or_debug_info h sfi"

definition ActiveBytecodeArray :: "Heap \<Rightarrow> Object \<Rightarrow> Object" where
  "ActiveBytecodeArray h sfi = READ_FIELD h sfi kFunctionDataOffset"

definition SetActiveBytecodeArray :: "Heap \<Rightarrow> Object \<Rightarrow> Object \<Rightarrow> Heap" where
  "SetActiveBytecodeArray h sfi bytecode = WRITE_FIELD h sfi kFunctionDataOffset bytecode"

definition DebugInfo_script :: "Heap \<Rightarrow> Object \<Rightarrow> Object" where
  "DebugInfo_script h debug_info = READ_FIELD h debug_info kScriptOffset"

definition DebugBytecodeArray :: "Heap \<Rightarrow> Object \<Rightarrow> Object" where
  "DebugBytecodeArray h debug_info = READ_FIELD h debug_info kDebugBytecodeArrayOffset"

definition OriginalBytecodeArray :: "Heap \<Rightarrow> Object \<Rightarrow> Object" where
  "OriginalBytecodeArray h debug_info = READ_FIELD h debug_info kOriginalBytecodeArrayOffset"

definition HasInstrumentedBytecodeArray :: "Heap \<Rightarrow> Object \<Rightarrow> bool" where
  "HasInstrumentedBytecodeArray h debug_info =
     (instance_type (h (DebugBytecodeArray h debug_info)) = BYTECODE_ARRAY_TYPE)"

definition InterpreterData_bytecode_array :: "Heap \<Rightarrow> Object \<Rightarrow> Object" where
  "InterpreterData_bytecode_array h data = READ_FIELD h data kBytecodeArrayOffset"

text \<open>The loop of \<^verbatim>\<open>SerializeReadOnlyObject\<close> over the pages, from a given count.\<close>

fun chunk_index_loop :: "Address \<Rightarrow> Address list \<Rightarrow> uint32_t \<Rightarrow> uint32_t" where
  "chunk_index_loop chunk [] chunk_index = chunk_index"
| "chunk_index_loop chunk (page # pages) chunk_index =
     (if chunk = page then chunk_index else chunk_index_loop chunk pages (chunk_index + 1))"

definition SerializeReadOnlyObject ::
  "'b SerializerExt \<Rightarrow> 'b CodeSerializer \<Rightarrow> Object \<Rightarrow> bool \<times> 'b CodeSerializer" where
  "SerializeReadOnlyObject X s obj =
     (if \<not> ReadOnlyHeap_Contains X (cs_isolate s) obj then (False, s)
      else (let address = obj;
                chunk = BasicMemoryChunk_FromAddress X address;
                chunk_index = chunk_index_loop chunk (read_only_space_pages (cs_isolate s)) 0;
                chunk_offset = (word_of_nat (Offset X chunk address) :: uint32_t)
            in (True, s\<lparr>cs_sink := cs_sink s @
                   [Put (kReadOnlyHeapRef X), PutInt (unat chunk_index),
                    PutInt (unat chunk_offset)]\<rparr>)))"

definition SerializeGeneric ::
  "'b SerializerExt \<Rightarrow> 'b CodeSerializer \<Rightarrow> Object \<Rightarrow> 'b CodeSerializer Exit" where
  "SerializeGeneric X s heap_object = ObjectSerializer_Serialize X s heap_object"

text \<open>
  \<^verbatim>\<open>SerializeObjectImpl\<close>, in four definitions: the block for a Script, the block for
  a SharedFunctionInfo, the checks and the generic call at the end, and the dispatch
  that precedes them. A local object that is null until it is assigned
  (\<^verbatim>\<open>debug_info\<close>, \<^verbatim>\<open>debug_bytecode_array\<close>) is an option. A \<^verbatim>\<open>DCHECK\<close> is
  compiled out of a release build and is no branch here.
\<close>

definition SerializeObjectImpl_Script ::
  "'b SerializerExt \<Rightarrow> 'b CodeSerializer \<Rightarrow> Object \<Rightarrow> 'b CodeSerializer Exit" where
  "SerializeObjectImpl_Script X s obj =
     (let rts = roots (cs_isolate s);
          script_obj = obj;
          context_data_saved = context_data (the_heap s) script_obj;
          s1 = (if context_data_saved \<noteq> undefined_value rts \<and>
                   context_data_saved \<noteq> uninitialized_symbol rts
                then update_heap (\<lambda>h. set_context_data h script_obj (undefined_value rts)) s
                else s);
          host_options = host_defined_options (the_heap s1) script_obj;
          s2 = update_heap
                 (\<lambda>h. set_host_defined_options h script_obj (empty_fixed_array rts)) s1
      in case SerializeGeneric X s2 obj of
           Fatal s3 \<Rightarrow> Fatal s3
         | Return s3 \<Rightarrow>
             Return (update_heap
                       (\<lambda>h. set_context_data
                               (set_host_defined_options h script_obj host_options)
                               script_obj context_data_saved) s3))"

definition SerializeObjectImpl_SharedFunctionInfo ::
  "'b SerializerExt \<Rightarrow> 'b CodeSerializer \<Rightarrow> Object \<Rightarrow> 'b CodeSerializer Exit" where
  "SerializeObjectImpl_SharedFunctionInfo X s obj =
     (let sfi = obj;
          h = the_heap s;
          (debug_info, debug_bytecode_array, h2) =
            (if HasDebugInfo h sfi then
               (let debug_info = GetDebugInfo h sfi;
                    (debug_bytecode_array, h1) =
                      (if HasInstrumentedBytecodeArray h debug_info
                       then (Some (DebugBytecodeArray h debug_info),
                             SetActiveBytecodeArray h sfi (OriginalBytecodeArray h debug_info))
                       else (None, h))
                in (Some debug_info, debug_bytecode_array,
                    set_script_or_debug_info h1 sfi (DebugInfo_script h1 debug_info)))
             else (None, None, h))
      in case SerializeGeneric X (update_heap (\<lambda>_. h2) s) obj of
           Fatal s3 \<Rightarrow> Fatal s3
         | Return s3 \<Rightarrow>
             Return
               (case debug_info of
                  None \<Rightarrow> s3
                | Some di \<Rightarrow>
                    update_heap
                      (\<lambda>h3. let h4 = set_script_or_debug_info h3 sfi di in
                             case debug_bytecode_array of
                               None \<Rightarrow> h4
                             | Some bytecode \<Rightarrow> SetActiveBytecodeArray h4 sfi bytecode)
                      s3))"

definition SerializeObjectImpl_rest ::
  "Flags \<Rightarrow> 'b SerializerExt \<Rightarrow> 'b CodeSerializer \<Rightarrow> Object \<Rightarrow> 'b CodeSerializer Exit" where
  "SerializeObjectImpl_rest F X s obj0 =
     (let h = the_heap s;
          obj = (if \<not> V8_TARGET_ARCH_ARM F \<and> FLAG_interpreted_frames_native_stack F \<and>
                    IsInterpreterData h obj0
                 then InterpreterData_bytecode_array h obj0
                 else obj0)
      in if IsMap h obj then Fatal s
         else if \<not> (\<not> IsJSGlobalProxy h obj \<and> \<not> IsJSGlobalObject h obj) then Fatal s
         else if NeedsRehashing X h obj \<and> \<not> CanBeRehashed X h obj then Fatal s
         else if \<not> (\<not> IsJSFunction h obj \<and> \<not> IsContext h obj) then Fatal s
         else SerializeGeneric X s obj)"

definition SerializeObjectImpl ::
  "Flags \<Rightarrow> 'b SerializerExt \<Rightarrow> 'b CodeSerializer \<Rightarrow> Object \<Rightarrow> 'b CodeSerializer Exit" where
  "SerializeObjectImpl F X s obj =
     (let (hot, s1) = SerializeHotObject X s obj in
      if hot then Return s1
      else (let (root, s2) = SerializeRoot X s1 obj in
      if root then Return s2
      else (let (back_reference, s3) = SerializeBackReference X s2 obj in
      if back_reference then Return s3
      else (let (read_only, s4) = SerializeReadOnlyObject X s3 obj in
      if read_only then Return s4
      else if IsCode (the_heap s4) obj then Fatal s4
      else if ElideObject X s4 obj
           then SerializeObject X s4 (undefined_value (roots (cs_isolate s4)))
      else if IsScript (the_heap s4) obj then SerializeObjectImpl_Script X s4 obj
      else if IsSharedFunctionInfo (the_heap s4) obj
           then SerializeObjectImpl_SharedFunctionInfo X s4 obj
      else SerializeObjectImpl_rest F X s4 obj))))"

subsection \<open>A concrete build, heap and serializer\<close>

text \<open>
  Modelled from the spec: one instance of the externals, for the concrete runs below.
  The header follows the table of the external interfaces (magic number at 0, version
  tag at 4, configuration-flags tag at 8, content hash at 12, payload length at 16,
  checksum at 20, fields little-endian, a header of 24 bytes) and the scenario of the
  testable properties (\<open>magic=0xC0DE, version=7, flags=3\<close>, a source of 42
  characters); the checksum covers "the header-minus-checksum-field plus payload" and
  is here the sum of those bytes.
\<close>

definition read_le32 :: "byte list \<Rightarrow> nat \<Rightarrow> uint32_t" where
  "read_le32 bs off =
     ucast (bs ! off) OR push_bit 8 (ucast (bs ! (off + 1)))
       OR push_bit 16 (ucast (bs ! (off + 2))) OR push_bit 24 (ucast (bs ! (off + 3)))"

definition example_Build :: Build where
  "example_Build =
     \<lparr>kMagicNumber = 0xC0DE, kHeaderSize = 24, kVersionHashOffset = 4, kSourceHashOffset = 12,
      kFlagHashOffset = 8, kPayloadLengthOffset = 16, kChecksumOffset = 20,
      Version_Hash = 7, FlagList_Hash = 3, FLAG_verify_snapshot_checksum = True,
      GetMagicNumber = (\<lambda>d. case sd_data d of None \<Rightarrow> 0 | Some bs \<Rightarrow> read_le32 bs 0),
      GetHeaderValue =
        (\<lambda>d off. case sd_data d of None \<Rightarrow> 0 | Some bs \<Rightarrow> read_le32 bs (unat off)),
      Checksum = (\<lambda>bs. foldr (\<lambda>b sum. ucast b + sum) bs 0),
      ChecksummedContent =
        (\<lambda>d. case sd_data d of None \<Rightarrow> [] | Some bs \<Rightarrow> take 20 bs @ drop 24 bs)\<rparr>"

text \<open>A well-formed entry: the header and a payload of eight bytes.\<close>

definition example_bytes :: "byte list" where
  "example_bytes =
     [0xDE, 0xC0, 0, 0,  7, 0, 0, 0,  3, 0, 0, 0,  42, 0, 0, 0,  8, 0, 0, 0,  0xFE, 1, 0, 0,
      1, 2, 3, 4, 5, 6, 7, 8]"

definition example_cached_data :: "byte list \<Rightarrow> AlignedCachedData" where
  "example_cached_data bs =
     \<lparr>cd_owns_data = False, cd_rejected = False, cd_data = Some bs,
      cd_length = int (length bs)\<rparr>"

definition example_Flags :: Flags where
  "example_Flags =
     \<lparr>FLAG_stress_background_compile = False, FLAG_log_function_events = False,
      FLAG_interpreted_frames_native_stack = False, V8_TARGET_ARCH_ARM = False\<rparr>"

definition example_roots :: ReadOnlyRoots where
  "example_roots =
     \<lparr>undefined_value = 1, uninitialized_symbol = 2, empty_fixed_array = 3, empty_string = 4\<rparr>"

definition mk_object :: "InstanceType \<Rightarrow> (Field \<times> Object) list \<Rightarrow> HeapObject" where
  "mk_object t fs =
     \<lparr>instance_type = t, slot = (\<lambda>f. case map_of fs f of None \<Rightarrow> 0 | Some v \<Rightarrow> v)\<rparr>"

text \<open>
  A heap: the four roots; the source string (10); three scripts, of which 20 has a
  context and host options, 21 has the uninitialized symbol for its context data, and
  22 refers to a Code object (40); a function (50) under debugging, with its debug
  record (60), the original bytecode (71) and the instrumented bytecode (72); a
  function (51) whose debug record (61) has no instrumented bytecode.
\<close>

definition example_heap :: Heap where
  "example_heap =
     (\<lambda>_. mk_object ODDBALL_TYPE [])
       (1 := mk_object ODDBALL_TYPE [],
        2 := mk_object SYMBOL_TYPE [],
        3 := mk_object FIXED_ARRAY_TYPE [],
        4 := mk_object STRING_TYPE [(kLengthOffset, 0)],
        10 := mk_object STRING_TYPE [(kLengthOffset, 42)],
        20 := mk_object SCRIPT_TYPE
                [(kContextDataOffset, 30), (kHostDefinedOptionsOffset, 31), (kSourceOffset, 10)],
        21 := mk_object SCRIPT_TYPE
                [(kContextDataOffset, 2), (kHostDefinedOptionsOffset, 31), (kSourceOffset, 10)],
        22 := mk_object SCRIPT_TYPE
                [(kContextDataOffset, 30), (kHostDefinedOptionsOffset, 31), (kSourceOffset, 40)],
        30 := mk_object CONTEXT_TYPE [],
        31 := mk_object FIXED_ARRAY_TYPE [],
        40 := mk_object CODE_TYPE [],
        50 := mk_object SHARED_FUNCTION_INFO_TYPE
                [(kScriptOrDebugInfoOffset, 60), (kFunctionDataOffset, 72)],
        51 := mk_object SHARED_FUNCTION_INFO_TYPE
                [(kScriptOrDebugInfoOffset, 61), (kFunctionDataOffset, 71)],
        60 := mk_object DEBUG_INFO_TYPE
                [(kScriptOffset, 20), (kOriginalBytecodeArrayOffset, 71),
                 (kDebugBytecodeArrayOffset, 72)],
        61 := mk_object DEBUG_INFO_TYPE
                [(kScriptOffset, 20), (kOriginalBytecodeArrayOffset, 1),
                 (kDebugBytecodeArrayOffset, 1)],
        71 := mk_object BYTECODE_ARRAY_TYPE [],
        72 := mk_object BYTECODE_ARRAY_TYPE [])"

definition example_Isolate :: Isolate where
  "example_Isolate =
     \<lparr>heap = example_heap, roots = example_roots, script_list = [20],
      code_cache_reject_reason = [], read_only_space_pages = [512, 256, 768],
      logger_events = []\<rparr>"

text \<open>
  A serializer whose base state is the list of hot objects and the list of objects
  already serialized. Its pages have 256 bytes. Its generic encoder puts five fields of
  the record into the sink, and fails the way a nested \<^verbatim>\<open>CHECK(!obj->IsCode())\<close>
  does when the source field refers to a Code object.
\<close>

definition example_SerializerExt :: "(Object list \<times> Object list) SerializerExt" where
  "example_SerializerExt =
     \<lparr>kReadOnlyHeapRef = 8,
      SerializeHotObject =
        (\<lambda>s obj. if obj \<in> set (fst (cs_base s))
                  then (True, s\<lparr>cs_sink := cs_sink s @ [Put 0x90]\<rparr>) else (False, s)),
      SerializeRoot =
        (\<lambda>s obj. if 1 \<le> obj \<and> obj \<le> 4
                  then (True, s\<lparr>cs_sink := cs_sink s @ [Put 0x10, PutInt obj]\<rparr>)
                  else (False, s)),
      SerializeBackReference =
        (\<lambda>s obj. if obj \<in> set (snd (cs_base s))
                  then (True, s\<lparr>cs_sink := cs_sink s @ [Put 0x20, PutInt obj]\<rparr>)
                  else (False, s)),
      ReadOnlyHeap_Contains = (\<lambda>iso obj. obj - obj mod 256 \<in> set (read_only_space_pages iso)),
      BasicMemoryChunk_FromAddress = (\<lambda>a. a - a mod 256),
      Offset = (\<lambda>chunk a. a - chunk),
      ElideObject = (\<lambda>s obj. False),
      SerializeObject = (\<lambda>s obj. Return (s\<lparr>cs_sink := cs_sink s @ [Put 0x10, PutInt obj]\<rparr>)),
      ObjectSerializer_Serialize =
        (\<lambda>s obj. if IsCode (the_heap s) (READ_FIELD (the_heap s) obj kSourceOffset) then Fatal s
                  else Return (s\<lparr>cs_sink := cs_sink s @
                         map (\<lambda>f. PutInt (READ_FIELD (the_heap s) obj f))
                           [kContextDataOffset, kHostDefinedOptionsOffset, kSourceOffset,
                            kScriptOrDebugInfoOffset, kFunctionDataOffset]\<rparr>)),
      NeedsRehashing = (\<lambda>h obj. False),
      CanBeRehashed = (\<lambda>h obj. True)\<rparr>"

definition example_CodeSerializer :: "(Object list \<times> Object list) CodeSerializer" where
  "example_CodeSerializer =
     \<lparr>cs_isolate = example_Isolate, cs_sink = [], cs_source_hash = 42, cs_base = ([71], [31])\<rparr>"

text \<open>
  A runtime with no listener: the synchronous deserializer returns the function 50
  and installs the source on the script 20; the off-thread one returns the function 50
  and the script 20, whose source it sets to the empty string.
\<close>

definition example_Runtime :: Runtime where
  "example_Runtime =
     \<lparr>Thread_Start = True,
      static_cast_int =
        (\<lambda>r. case r of kSuccess \<Rightarrow> 0 | kMagicNumberMismatch \<Rightarrow> 1 | kVersionMismatch \<Rightarrow> 2
              | kSourceMismatch \<Rightarrow> 3 | kFlagsMismatch \<Rightarrow> 5 | kChecksumMismatch \<Rightarrow> 6
              | kInvalidHeader \<Rightarrow> 7 | kLengthMismatch \<Rightarrow> 8),
      ObjectDeserializer_DeserializeSharedFunctionInfo =
        (\<lambda>iso scd source. (iso\<lparr>heap := set_source (heap iso) 20 source\<rparr>,
                             Some (Handle InHandleScope 50))),
      OffThreadObjectDeserializer_DeserializeSharedFunctionInfo =
        (\<lambda>li scd. (li\<lparr>local_heap := set_source (local_heap li) 20 4\<rparr>,
                     Some (Handle InLocalHandleScope 50), [Handle InPersistentHandles 20])),
      SharedFunctionInfo_script =
        (\<lambda>h sfi. if HasDebugInfo h sfi then DebugInfo_script h (GetDebugInfo h sfi)
                  else script_or_debug_info h sfi),
      is_listening_to_code_events = (\<lambda>iso. False),
      is_profiling = (\<lambda>iso. False),
      IsListeningToCodeEvents = (\<lambda>iso. False),
      NeedsSourcePositionsForProfiling = (\<lambda>iso. False),
      ScriptIterator = (\<lambda>iso script. [50]),
      HasBytecodeArray = (\<lambda>iso sfi. True),
      NewInterpreterData = (\<lambda>iso sfi. (iso, 40)),
      is_compiled = (\<lambda>iso sfi. True),
      is_toplevel = (\<lambda>iso sfi. True),
      abstract_code = (\<lambda>iso sfi. 72),
      EnsureSourcePositionsAvailable = (\<lambda>iso sfi. iso),
      Script_InitLineEnds = (\<lambda>iso script. iso),
      LOG_FunctionEvent = (\<lambda>iso script sfi name. iso),
      PROFILE_CodeCreateEvent = (\<lambda>iso tag code sfi name script. iso)\<rparr>"


definition example_opts :: ScriptOriginOptions where
  "example_opts =
     \<lparr>IsSharedCrossOrigin = False, IsOpaque = False, IsWasm = False, IsModule = False\<rparr>"

text \<open>What the off-thread deserializer of the example leaves for the finish step.\<close>

definition example_pending :: OffThreadDeserializeData where
  "example_pending =
     \<lparr>maybe_result = Some (Handle InPersistentHandles 50),
      scripts = [Handle InPersistentHandles 20],
      persistent_handles = Some [Handle InPersistentHandles 50],
      sanity_check_result = kSuccess\<rparr>"

section \<open>Properties\<close>

lemmas example_sanity_defs =
  SanityCheckWithoutSource_def SanityCheckJustSource_def SanityCheck_def example_Build_def
  SerializedCodeData_def example_cached_data_def example_bytes_def read_le32_def

subsection \<open>The structural check\<close>

lemma SanityCheckWithoutSource_PhaseA_spec: "SanityCheckWithoutSource B d = PhaseA_spec B d"
  by (auto simp: SanityCheckWithoutSource_def PhaseA_spec_def Let_def word_less_def
      word_le_def uint_sub_if')

lemma SanityCheckWithoutSource_never_source [simp]:
  "SanityCheckWithoutSource B d \<noteq> kSourceMismatch"
  by (simp add: SanityCheckWithoutSource_def Let_def)

text \<open>
  C1. The structure-only check is the chain of the specification, read over the
  integers: too small, then magic number, version, flags, payload length, checksum
  (when checksums are verified), then success; each reason is returned exactly when its
  test is the first to fail. A payload length of buffer size minus header size plus
  one, with the earlier tests passing, gives \<open>kLengthMismatch\<close>.
\<close>

theorem PhaseA_order:
  "SanityCheckWithoutSource B d = PhaseA_spec B d \<and>
   (SanityCheckWithoutSource B d = kInvalidHeader) = (sd_size d < kHeaderSize B) \<and>
   (SanityCheckWithoutSource B d = kMagicNumberMismatch) =
     (\<not> sd_size d < kHeaderSize B \<and> GetMagicNumber B d \<noteq> kMagicNumber B) \<and>
   (SanityCheckWithoutSource B d = kVersionMismatch) =
     (\<not> sd_size d < kHeaderSize B \<and> GetMagicNumber B d = kMagicNumber B \<and>
      GetHeaderValue B d (kVersionHashOffset B) \<noteq> Version_Hash B) \<and>
   (SanityCheckWithoutSource B d = kFlagsMismatch) =
     (\<not> sd_size d < kHeaderSize B \<and> GetMagicNumber B d = kMagicNumber B \<and>
      GetHeaderValue B d (kVersionHashOffset B) = Version_Hash B \<and>
      GetHeaderValue B d (kFlagHashOffset B) \<noteq> FlagList_Hash B) \<and>
   (SanityCheckWithoutSource B d = kLengthMismatch) =
     (\<not> sd_size d < kHeaderSize B \<and> GetMagicNumber B d = kMagicNumber B \<and>
      GetHeaderValue B d (kVersionHashOffset B) = Version_Hash B \<and>
      GetHeaderValue B d (kFlagHashOffset B) = FlagList_Hash B \<and>
      unat (GetHeaderValue B d (kPayloadLengthOffset B))
        > unat (sd_size d) - unat (kHeaderSize B)) \<and>
   (SanityCheckWithoutSource B d = kChecksumMismatch) =
     (\<not> sd_size d < kHeaderSize B \<and> GetMagicNumber B d = kMagicNumber B \<and>
      GetHeaderValue B d (kVersionHashOffset B) = Version_Hash B \<and>
      GetHeaderValue B d (kFlagHashOffset B) = FlagList_Hash B \<and>
      unat (GetHeaderValue B d (kPayloadLengthOffset B))
        \<le> unat (sd_size d) - unat (kHeaderSize B) \<and>
      FLAG_verify_snapshot_checksum B \<and>
      Checksum B (ChecksummedContent B d) \<noteq> GetHeaderValue B d (kChecksumOffset B)) \<and>
   (\<not> sd_size d < kHeaderSize B \<and> GetMagicNumber B d = kMagicNumber B \<and>
    GetHeaderValue B d (kVersionHashOffset B) = Version_Hash B \<and>
    GetHeaderValue B d (kFlagHashOffset B) = FlagList_Hash B \<and>
    unat (GetHeaderValue B d (kPayloadLengthOffset B))
      = unat (sd_size d) - unat (kHeaderSize B) + 1
    \<longrightarrow> SanityCheckWithoutSource B d = kLengthMismatch)"
proof -
  have sub: "unat (sd_size d - kHeaderSize B) = unat (sd_size d) - unat (kHeaderSize B)"
    if "\<not> sd_size d < kHeaderSize B"
    using that by (simp add: unat_sub not_less)
  have len: "(sd_size d - kHeaderSize B < GetHeaderValue B d (kPayloadLengthOffset B))
               = (unat (sd_size d) - unat (kHeaderSize B)
                    < unat (GetHeaderValue B d (kPayloadLengthOffset B)))"
    if "\<not> sd_size d < kHeaderSize B"
    by (simp add: word_less_nat_alt sub [OF that])
  have spec: "SanityCheckWithoutSource B d = PhaseA_spec B d"
    by (rule SanityCheckWithoutSource_PhaseA_spec)
  have small: "(SanityCheckWithoutSource B d = kInvalidHeader) = (sd_size d < kHeaderSize B)"
    by (simp add: SanityCheckWithoutSource_def Let_def)
  have magic: "(SanityCheckWithoutSource B d = kMagicNumberMismatch) =
     (\<not> sd_size d < kHeaderSize B \<and> GetMagicNumber B d \<noteq> kMagicNumber B)"
    by (simp add: SanityCheckWithoutSource_def Let_def)
  have version: "(SanityCheckWithoutSource B d = kVersionMismatch) =
     (\<not> sd_size d < kHeaderSize B \<and> GetMagicNumber B d = kMagicNumber B \<and>
      GetHeaderValue B d (kVersionHashOffset B) \<noteq> Version_Hash B)"
    by (simp add: SanityCheckWithoutSource_def Let_def)
  have flags: "(SanityCheckWithoutSource B d = kFlagsMismatch) =
     (\<not> sd_size d < kHeaderSize B \<and> GetMagicNumber B d = kMagicNumber B \<and>
      GetHeaderValue B d (kVersionHashOffset B) = Version_Hash B \<and>
      GetHeaderValue B d (kFlagHashOffset B) \<noteq> FlagList_Hash B)"
    by (simp add: SanityCheckWithoutSource_def Let_def)
  have length: "(SanityCheckWithoutSource B d = kLengthMismatch) =
     (\<not> sd_size d < kHeaderSize B \<and> GetMagicNumber B d = kMagicNumber B \<and>
      GetHeaderValue B d (kVersionHashOffset B) = Version_Hash B \<and>
      GetHeaderValue B d (kFlagHashOffset B) = FlagList_Hash B \<and>
      unat (GetHeaderValue B d (kPayloadLengthOffset B))
        > unat (sd_size d) - unat (kHeaderSize B))"
    using len by (auto simp: SanityCheckWithoutSource_def Let_def)
  have checksum: "(SanityCheckWithoutSource B d = kChecksumMismatch) =
     (\<not> sd_size d < kHeaderSize B \<and> GetMagicNumber B d = kMagicNumber B \<and>
      GetHeaderValue B d (kVersionHashOffset B) = Version_Hash B \<and>
      GetHeaderValue B d (kFlagHashOffset B) = FlagList_Hash B \<and>
      unat (GetHeaderValue B d (kPayloadLengthOffset B))
        \<le> unat (sd_size d) - unat (kHeaderSize B) \<and>
      FLAG_verify_snapshot_checksum B \<and>
      Checksum B (ChecksummedContent B d) \<noteq> GetHeaderValue B d (kChecksumOffset B))"
    using len by (auto simp: SanityCheckWithoutSource_def Let_def not_less)
  have bound: "\<not> sd_size d < kHeaderSize B \<and> GetMagicNumber B d = kMagicNumber B \<and>
    GetHeaderValue B d (kVersionHashOffset B) = Version_Hash B \<and>
    GetHeaderValue B d (kFlagHashOffset B) = FlagList_Hash B \<and>
    unat (GetHeaderValue B d (kPayloadLengthOffset B))
      = unat (sd_size d) - unat (kHeaderSize B) + 1
    \<longrightarrow> SanityCheckWithoutSource B d = kLengthMismatch"
    unfolding length by simp
  show ?thesis
    by (rule conjI [OF spec conjI [OF small conjI [OF magic conjI [OF version
          conjI [OF flags conjI [OF length conjI [OF checksum bound]]]]]]])
qed

theorem PhaseA_order_witness:
  "SanityCheckWithoutSource example_Build
     (SerializedCodeData (example_cached_data (example_bytes[16 := 9]))) = kLengthMismatch \<and>
   SanityCheckWithoutSource example_Build
     (SerializedCodeData (example_cached_data example_bytes)) = kSuccess"
  using PhaseA_order [of example_Build
      "SerializedCodeData (example_cached_data (example_bytes[16 := 9]))"]
  by (simp add: example_sanity_defs)

subsection \<open>The source hash and the content check\<close>

lemma kModuleFlagMask_bit: "bit kModuleFlagMask n = (n = 31)"
proof -
  have "bit (push_bit 31 (1::uint32_t)) n = (n = 31)"
    unfolding bit_push_bit_iff bit_1_iff possible_bit_word by auto
  then show ?thesis by (simp only: kModuleFlagMask_def)
qed

lemma SourceHash_bit:
  "bit (SourceHash h source origin_options) n =
     (bit (String_length h source) n \<or> (IsModule origin_options \<and> n = 31))"
  by (simp add: SourceHash_def Let_def bit_or_iff kModuleFlagMask_bit)

lemma small_length_no_flag:
  assumes "n < 2 ^ 31"
  shows "\<not> bit (word_of_nat n :: uint32_t) 31"
proof -
  have "\<not> bit n 31" using assms by (simp add: bit_iff_odd)
  then show ?thesis by (simp only: bit_of_nat_iff) simp
qed

lemma SourceHash_unat:
  assumes "READ_FIELD h source kLengthOffset < 2 ^ 31"
  shows "unat (SourceHash h source origin_options)
           = READ_FIELD h source kLengthOffset + (if IsModule origin_options then 2 ^ 31 else 0)"
proof -
  let ?n = "READ_FIELD h source kLengthOffset"
  let ?w = "word_of_nat ?n :: uint32_t"
  have n: "unat ?w = ?n" using assms by (simp add: unat_of_nat)
  have nb: "\<not> bit ?w 31" using assms by (rule small_length_no_flag)
  show ?thesis
  proof (cases "IsModule origin_options")
    case False
    then show ?thesis by (simp add: SourceHash_def Let_def String_length_def n)
  next
    case True
    have disj: "?w OR kModuleFlagMask = ?w + kModuleFlagMask"
      by (rule disjunctive_add [symmetric]) (use nb in \<open>auto simp: kModuleFlagMask_bit\<close>)
    have m: "unat kModuleFlagMask = 2 ^ 31" by (simp add: kModuleFlagMask_def)
    have "unat (?w + kModuleFlagMask) = unat ?w + unat kModuleFlagMask"
      using assms by (subst unat_add_lem [THEN iffD1]) (simp_all add: n m)
    with True show ?thesis by (simp add: SourceHash_def Let_def String_length_def disj n m)
  qed
qed

lemma SanityCheckJustSource_cases:
  "SanityCheckJustSource B d h = kSuccess \<or> SanityCheckJustSource B d h = kSourceMismatch"
  by (simp add: SanityCheckJustSource_def Let_def)

lemmas example_heap_defs = example_heap_def mk_object_def READ_FIELD_def String_length_def

text \<open>
  C2. The source hash is the source length, as a 32-bit value, bitwise-OR'd with
  \<open>1 << 31\<close> exactly when the origin is a module. When the length does not have
  bit 31 set, the low 31 bits of the hash are the length and bit 31 is the module flag;
  when the length is below \<open>2^31\<close>, the hash as a number is the length plus
  \<open>2^31\<close> for a module. The content check returns \<open>kSourceMismatch\<close> exactly
  when the stored header field differs from the hash, and \<open>kSuccess\<close> otherwise.
\<close>

theorem SourceHash_value:
  "SourceHash h source origin_options
     = String_length h source OR push_bit 31 (of_bool (IsModule origin_options)) \<and>
   (\<not> bit (String_length h source) 31 \<longrightarrow>
      take_bit 31 (SourceHash h source origin_options) = String_length h source \<and>
      bit (SourceHash h source origin_options) 31 = IsModule origin_options) \<and>
   (READ_FIELD h source kLengthOffset < 2 ^ 31 \<longrightarrow>
      unat (SourceHash h source origin_options)
        = READ_FIELD h source kLengthOffset + (if IsModule origin_options then 2 ^ 31 else 0)) \<and>
   (SanityCheckJustSource B d (SourceHash h source origin_options) = kSourceMismatch)
     = (GetHeaderValue B d (kSourceHashOffset B) \<noteq> SourceHash h source origin_options) \<and>
   (SanityCheckJustSource B d (SourceHash h source origin_options) = kSuccess)
     = (GetHeaderValue B d (kSourceHashOffset B) = SourceHash h source origin_options)"
proof (intro conjI impI)
  show "SourceHash h source origin_options
     = String_length h source OR push_bit 31 (of_bool (IsModule origin_options))"
    by (simp add: SourceHash_def Let_def kModuleFlagMask_def)
next
  assume a: "\<not> bit (String_length h source) 31"
  show "take_bit 31 (SourceHash h source origin_options) = String_length h source"
  proof (rule bit_eqI)
    fix n
    show "bit (take_bit 31 (SourceHash h source origin_options)) n
            = bit (String_length h source) n"
    proof (cases "n < 31")
      case True
      then show ?thesis by (simp add: bit_take_bit_iff SourceHash_bit)
    next
      case False
      then have "\<not> bit (String_length h source) n"
        using a by (cases "n = 31") (auto dest: bit_imp_le_length)
      with False show ?thesis by (simp add: bit_take_bit_iff)
    qed
  qed
next
  assume a: "\<not> bit (String_length h source) 31"
  then show "bit (SourceHash h source origin_options) 31 = IsModule origin_options"
    by (simp add: SourceHash_bit)
next
  assume "READ_FIELD h source kLengthOffset < 2 ^ 31"
  then show "unat (SourceHash h source origin_options)
        = READ_FIELD h source kLengthOffset + (if IsModule origin_options then 2 ^ 31 else 0)"
    by (rule SourceHash_unat)
qed (simp_all add: SanityCheckJustSource_def Let_def)

theorem SourceHash_value_witness:
  "SourceHash example_heap 10 (example_opts\<lparr>IsModule := True\<rparr>) = 0x8000002A \<and>
   SanityCheckJustSource example_Build (SerializedCodeData (example_cached_data example_bytes))
     (SourceHash example_heap 10 (example_opts\<lparr>IsModule := True\<rparr>)) = kSourceMismatch \<and>
   SanityCheckJustSource example_Build (SerializedCodeData (example_cached_data example_bytes))
     (SourceHash example_heap 10 example_opts) = kSuccess"
  using SourceHash_value [of example_heap 10 "example_opts\<lparr>IsModule := True\<rparr>" example_Build
       "SerializedCodeData (example_cached_data example_bytes)"]
    SourceHash_value [of example_heap 10 example_opts example_Build
       "SerializedCodeData (example_cached_data example_bytes)"]
  by (simp add: example_heap_defs example_sanity_defs example_opts_def)

subsection \<open>The combined check and the rejection of the buffer\<close>

text \<open>
  C3. The combined check is the structural check and, only when that succeeds, the
  content check. \<^verbatim>\<open>FromCachedData\<close> stores the result of the combined check for its
  caller; when it is not success the buffer comes back rejected and the data is the
  null data, when it is success the buffer is untouched. A rejected buffer stays
  rejected, and its bytes and length never change.
\<close>

theorem SanityCheck_combined:
  "SanityCheck B d h =
     (if SanityCheckWithoutSource B d \<noteq> kSuccess then SanityCheckWithoutSource B d
      else SanityCheckJustSource B d h) \<and>
   (case FromCachedData B cd h of
      (scd, cd', r) \<Rightarrow>
        r = SanityCheck B (SerializedCodeData cd) h \<and>
        (r \<noteq> kSuccess \<longrightarrow> cd_rejected cd' \<and> cd' = Reject cd \<and> scd = SerializedCodeData_null) \<and>
        (r = kSuccess \<longrightarrow> cd' = cd \<and> scd = SerializedCodeData cd) \<and>
        (cd_rejected cd \<longrightarrow> cd_rejected cd') \<and>
        cd_data cd' = cd_data cd \<and> cd_length cd' = cd_length cd)"
  by (simp add: SanityCheck_def FromCachedData_def Reject_def Let_def)

theorem SanityCheck_combined_witness:
  "FromCachedData example_Build (example_cached_data (example_bytes[0 := 0xDF])) 42
     = (SerializedCodeData_null,
        (example_cached_data (example_bytes[0 := 0xDF]))\<lparr>cd_rejected := True\<rparr>,
        kMagicNumberMismatch) \<and>
   FromCachedData example_Build (example_cached_data example_bytes) 43
     = (SerializedCodeData_null, (example_cached_data example_bytes)\<lparr>cd_rejected := True\<rparr>,
        kSourceMismatch) \<and>
   FromCachedData example_Build (example_cached_data example_bytes) 42
     = (SerializedCodeData (example_cached_data example_bytes),
        example_cached_data example_bytes, kSuccess) \<and>
   cd_rejected (fst (snd (FromCachedData example_Build
      ((example_cached_data example_bytes)\<lparr>cd_rejected := True\<rparr>) 42)))"
  using SanityCheck_combined [of example_Build
      "SerializedCodeData (example_cached_data example_bytes)" 42
      "(example_cached_data example_bytes)\<lparr>cd_rejected := True\<rparr>"]
    SanityCheck_combined [of example_Build
      "SerializedCodeData (example_cached_data (example_bytes[0 := 0xDF]))" 42
      "example_cached_data (example_bytes[0 := 0xDF])"]
    SanityCheck_combined [of example_Build
      "SerializedCodeData (example_cached_data example_bytes)" 43
      "example_cached_data example_bytes"]
    SanityCheck_combined [of example_Build
      "SerializedCodeData (example_cached_data example_bytes)" 42
      "example_cached_data example_bytes"]
  by (simp add: example_sanity_defs Reject_def split: prod.splits)

subsection \<open>The background path\<close>

text \<open>
  C4. \<^verbatim>\<open>StartDeserializeOffThread\<close> stores the result of the structural check alone;
  when that is a failure the local isolate is as it was, nothing was deserialized and
  the buffer is rejected. Replaying from the stored result gives the reason of the
  combined check. A stored failure is the final reason: the buffer is rejected again,
  the content check is not consulted, and \<^verbatim>\<open>FinishOffThreadDeserialize\<close> reports
  that reason and returns nothing. From a stored success the replay gives the result of
  the content check, which is success or \<open>kSourceMismatch\<close>, and
  \<^verbatim>\<open>FinishOffThreadDeserialize\<close> itself adds no other failure: when the stored hash
  differs from the hash of the source it reports \<open>kSourceMismatch\<close>, rejects the
  buffer and returns nothing; when the hashes agree it rejects nothing and returns the
  pending result, re-handled, and with no pending result it leaves the isolate as it
  was.
\<close>

theorem background_replay:
  "(case StartDeserializeOffThread R B li cd of
      (data, li', cd') \<Rightarrow>
        sanity_check_result data = SanityCheckWithoutSource B (SerializedCodeData cd) \<and>
        (sanity_check_result data \<noteq> kSuccess \<longrightarrow>
           li' = li \<and> cd' = Reject cd \<and> maybe_result data = None \<and> scripts data = [] \<and>
           persistent_handles data = None) \<and>
        (sanity_check_result data = kSuccess \<longrightarrow> cd' = cd) \<and>
        snd (snd (FromPartiallySanityCheckedCachedData B cd' h (sanity_check_result data)))
          = SanityCheck B (SerializedCodeData cd) h) \<and>
   (stored \<noteq> kSuccess \<longrightarrow>
      FromPartiallySanityCheckedCachedData B cd h stored
        = (SerializedCodeData_null, Reject cd, stored) \<and>
      FinishOffThreadDeserialize F R B isolate (pending\<lparr>sanity_check_result := stored\<rparr>) cd
          source origin_options
        = (isolate\<lparr>code_cache_reject_reason :=
                      code_cache_reject_reason isolate @ [static_cast_int R stored]\<rparr>,
           Reject cd, None)) \<and>
   (case FromPartiallySanityCheckedCachedData B cd h kSuccess of
      (scd, cd', r) \<Rightarrow>
        r = SanityCheckJustSource B (SerializedCodeData cd) h \<and>
        (r = kSuccess \<or> r = kSourceMismatch) \<and>
        (r = kSourceMismatch \<longrightarrow> cd' = Reject cd) \<and> (r = kSuccess \<longrightarrow> cd' = cd)) \<and>
   (GetHeaderValue B (SerializedCodeData cd) (kSourceHashOffset B)
      \<noteq> SourceHash (heap isolate) source origin_options \<longrightarrow>
      FinishOffThreadDeserialize F R B isolate (pending\<lparr>sanity_check_result := kSuccess\<rparr>) cd
          source origin_options
        = (isolate\<lparr>code_cache_reject_reason :=
                      code_cache_reject_reason isolate @ [static_cast_int R kSourceMismatch]\<rparr>,
           Reject cd, None)) \<and>
   (GetHeaderValue B (SerializedCodeData cd) (kSourceHashOffset B)
      = SourceHash (heap isolate) source origin_options \<longrightarrow>
      snd (FinishOffThreadDeserialize F R B isolate (pending\<lparr>sanity_check_result := kSuccess\<rparr>)
             cd source origin_options)
        = (cd, map_option (\<lambda>p. Handle InHandleScope (deref p)) (maybe_result pending)) \<and>
      (maybe_result pending = None \<longrightarrow>
         fst (FinishOffThreadDeserialize F R B isolate
                (pending\<lparr>sanity_check_result := kSuccess\<rparr>) cd source origin_options)
           = isolate))"
proof -
  have c_start: "case StartDeserializeOffThread R B li cd of
      (data, li', cd') \<Rightarrow>
        sanity_check_result data = SanityCheckWithoutSource B (SerializedCodeData cd) \<and>
        (sanity_check_result data \<noteq> kSuccess \<longrightarrow>
           li' = li \<and> cd' = Reject cd \<and> maybe_result data = None \<and> scripts data = [] \<and>
           persistent_handles data = None) \<and>
        (sanity_check_result data = kSuccess \<longrightarrow> cd' = cd) \<and>
        snd (snd (FromPartiallySanityCheckedCachedData B cd' h (sanity_check_result data)))
          = SanityCheck B (SerializedCodeData cd) h"
    by (simp add: StartDeserializeOffThread_def FromCachedDataWithoutSource_def
        FromPartiallySanityCheckedCachedData_def SanityCheck_def Let_def Reject_def
        SerializedCodeData_def split: prod.splits)
  have c_stored: "stored \<noteq> kSuccess \<longrightarrow>
      FromPartiallySanityCheckedCachedData B cd h stored
        = (SerializedCodeData_null, Reject cd, stored) \<and>
      FinishOffThreadDeserialize F R B isolate (pending\<lparr>sanity_check_result := stored\<rparr>) cd
          source origin_options
        = (isolate\<lparr>code_cache_reject_reason :=
                      code_cache_reject_reason isolate @ [static_cast_int R stored]\<rparr>,
           Reject cd, None)"
    by (simp add: FromPartiallySanityCheckedCachedData_def FinishOffThreadDeserialize_def)
  have c_replay: "case FromPartiallySanityCheckedCachedData B cd h kSuccess of
      (scd, cd', r) \<Rightarrow>
        r = SanityCheckJustSource B (SerializedCodeData cd) h \<and>
        (r = kSuccess \<or> r = kSourceMismatch) \<and>
        (r = kSourceMismatch \<longrightarrow> cd' = Reject cd) \<and> (r = kSuccess \<longrightarrow> cd' = cd)"
    using SanityCheckJustSource_cases [of B "SerializedCodeData cd" h]
    by (auto simp: FromPartiallySanityCheckedCachedData_def Let_def)
  have c_mismatch: "GetHeaderValue B (SerializedCodeData cd) (kSourceHashOffset B)
      \<noteq> SourceHash (heap isolate) source origin_options \<longrightarrow>
      FinishOffThreadDeserialize F R B isolate (pending\<lparr>sanity_check_result := kSuccess\<rparr>) cd
          source origin_options
        = (isolate\<lparr>code_cache_reject_reason :=
                      code_cache_reject_reason isolate @ [static_cast_int R kSourceMismatch]\<rparr>,
           Reject cd, None)"
    by (simp add: FinishOffThreadDeserialize_def FromPartiallySanityCheckedCachedData_def
        SanityCheckJustSource_def Let_def)
  have c_match: "GetHeaderValue B (SerializedCodeData cd) (kSourceHashOffset B)
      = SourceHash (heap isolate) source origin_options \<longrightarrow>
      snd (FinishOffThreadDeserialize F R B isolate (pending\<lparr>sanity_check_result := kSuccess\<rparr>)
             cd source origin_options)
        = (cd, map_option (\<lambda>p. Handle InHandleScope (deref p)) (maybe_result pending)) \<and>
      (maybe_result pending = None \<longrightarrow>
         fst (FinishOffThreadDeserialize F R B isolate
                (pending\<lparr>sanity_check_result := kSuccess\<rparr>) cd source origin_options)
           = isolate)"
    by (auto simp: FinishOffThreadDeserialize_def FromPartiallySanityCheckedCachedData_def
        SanityCheckJustSource_def Let_def handle_def split: option.splits)
  show ?thesis
    by (rule conjI [OF c_start conjI [OF c_stored conjI [OF c_replay
          conjI [OF c_mismatch c_match]]]])
qed

theorem background_replay_witness:
  "StartDeserializeOffThread example_Runtime example_Build
     \<lparr>local_heap = example_heap, local_persistent_handles = None\<rparr>
     (example_cached_data (example_bytes[0 := 0xDF]))
   = (\<lparr>maybe_result = None, scripts = [], persistent_handles = None,
       sanity_check_result = kMagicNumberMismatch\<rparr>,
      \<lparr>local_heap = example_heap, local_persistent_handles = None\<rparr>,
      Reject (example_cached_data (example_bytes[0 := 0xDF]))) \<and>
   FinishOffThreadDeserialize example_Flags example_Runtime example_Build example_Isolate
     \<lparr>maybe_result = None, scripts = [], persistent_handles = None,
       sanity_check_result = kMagicNumberMismatch\<rparr>
     (Reject (example_cached_data (example_bytes[0 := 0xDF]))) 10 example_opts
   = (example_Isolate\<lparr>code_cache_reject_reason := [1]\<rparr>,
      Reject (example_cached_data (example_bytes[0 := 0xDF])), None) \<and>
   sanity_check_result (fst (StartDeserializeOffThread example_Runtime example_Build
     \<lparr>local_heap = example_heap, local_persistent_handles = None\<rparr>
     (example_cached_data example_bytes))) = kSuccess \<and>
   FromPartiallySanityCheckedCachedData example_Build (example_cached_data example_bytes) 43
     kSuccess
   = (SerializedCodeData_null, Reject (example_cached_data example_bytes), kSourceMismatch) \<and>
   FromPartiallySanityCheckedCachedData example_Build (example_cached_data example_bytes) 42
     kSuccess
   = (SerializedCodeData (example_cached_data example_bytes),
      example_cached_data example_bytes, kSuccess) \<and>
   FinishOffThreadDeserialize example_Flags example_Runtime example_Build example_Isolate
     example_pending (example_cached_data example_bytes) 4 example_opts
   = (example_Isolate\<lparr>code_cache_reject_reason := [3]\<rparr>,
      Reject (example_cached_data example_bytes), None) \<and>
   FinishOffThreadDeserialize example_Flags example_Runtime example_Build example_Isolate
     (example_pending\<lparr>maybe_result := None\<rparr>) (example_cached_data example_bytes) 10
     example_opts
   = (example_Isolate, example_cached_data example_bytes, None) \<and>
   snd (FinishOffThreadDeserialize example_Flags example_Runtime example_Build example_Isolate
     example_pending (example_cached_data example_bytes) 10 example_opts)
   = (example_cached_data example_bytes, Some (Handle InHandleScope 50))"
  using background_replay [where R = example_Runtime and B = example_Build
      and li = "\<lparr>local_heap = example_heap, local_persistent_handles = None\<rparr>"
      and cd = "example_cached_data example_bytes"
      and h = 43 and stored = kInvalidHeader and F = example_Flags
      and isolate = example_Isolate and pending = example_pending
      and source = 4 and origin_options = example_opts]
    background_replay [where R = example_Runtime and B = example_Build
      and li = "\<lparr>local_heap = example_heap, local_persistent_handles = None\<rparr>"
      and cd = "example_cached_data example_bytes"
      and h = 42 and stored = kInvalidHeader and F = example_Flags
      and isolate = example_Isolate and pending = "example_pending\<lparr>maybe_result := None\<rparr>"
      and source = 10 and origin_options = example_opts]
    background_replay [where R = example_Runtime and B = example_Build
      and li = "\<lparr>local_heap = example_heap, local_persistent_handles = None\<rparr>"
      and cd = "example_cached_data example_bytes"
      and h = 42 and stored = kInvalidHeader and F = example_Flags
      and isolate = example_Isolate and pending = example_pending
      and source = 10 and origin_options = example_opts]
    background_replay [where R = example_Runtime and B = example_Build
      and li = "\<lparr>local_heap = example_heap, local_persistent_handles = None\<rparr>"
      and cd = "example_cached_data (example_bytes[0 := 0xDF])"
      and h = 42 and stored = kMagicNumberMismatch and F = example_Flags
      and isolate = example_Isolate
      and pending = "\<lparr>maybe_result = None, scripts = [], persistent_handles = None,
          sanity_check_result = kSuccess\<rparr>"
      and source = 10 and origin_options = example_opts]
  by (simp add: example_sanity_defs Reject_def example_Runtime_def example_Isolate_def
      FinishOffThreadDeserialize_def FromPartiallySanityCheckedCachedData_def
      StartDeserializeOffThread_def FromCachedDataWithoutSource_def example_pending_def
      SourceHash_def example_heap_defs example_opts_def split: prod.splits)

subsection \<open>Rejection before deserialization\<close>

lemma flipped_bit_differs:
  fixes x :: uint32_t
  assumes "i < 32"
  shows "x XOR push_bit i 1 \<noteq> x"
proof
  assume "x XOR push_bit i 1 = x"
  then have "bit (x XOR push_bit i 1) i = bit x i" by simp
  then show False using assms by (simp add: bit_xor_iff bit_push_bit_iff bit_exp_iff)
qed

text \<open>
  C8. When the structural check of the buffer fails, \<^verbatim>\<open>Deserialize\<close> returns no
  result, rejects the buffer, adds the number of that reason to the counter of reject
  reasons and leaves the isolate otherwise as it was, whatever the two object
  deserializers are: neither is called. (Under \<^verbatim>\<open>FLAG_stress_background_compile\<close>
  the thread must have started.) A magic number with any one of its 32 bits flipped
  makes the structural check return \<open>kMagicNumberMismatch\<close>.
\<close>

theorem Deserialize_structural_failure:
  "(SanityCheckWithoutSource B (SerializedCodeData cd) \<noteq> kSuccess \<and>
    (FLAG_stress_background_compile F \<longrightarrow> Thread_Start R)
    \<longrightarrow> Deserialize F
          (R\<lparr>ObjectDeserializer_DeserializeSharedFunctionInfo := od,
             OffThreadObjectDeserializer_DeserializeSharedFunctionInfo := otd\<rparr>)
          B isolate cd source origin_options
        = Return (isolate\<lparr>code_cache_reject_reason := code_cache_reject_reason isolate @
                     [static_cast_int R (SanityCheckWithoutSource B (SerializedCodeData cd))]\<rparr>,
                  Reject cd, None)) \<and>
   (i < 32 \<and> \<not> sd_size d < kHeaderSize B \<and>
    GetMagicNumber B d = kMagicNumber B XOR push_bit i 1
    \<longrightarrow> SanityCheckWithoutSource B d = kMagicNumberMismatch)"
proof (intro conjI impI)
  assume a: "SanityCheckWithoutSource B (SerializedCodeData cd) \<noteq> kSuccess \<and>
    (FLAG_stress_background_compile F \<longrightarrow> Thread_Start R)"
  let ?R = "R\<lparr>ObjectDeserializer_DeserializeSharedFunctionInfo := od,
             OffThreadObjectDeserializer_DeserializeSharedFunctionInfo := otd\<rparr>"
  show "Deserialize F ?R B isolate cd source origin_options
        = Return (isolate\<lparr>code_cache_reject_reason := code_cache_reject_reason isolate @
                     [static_cast_int R (SanityCheckWithoutSource B (SerializedCodeData cd))]\<rparr>,
                  Reject cd, None)"
  proof (cases "FLAG_stress_background_compile F")
    case False
    with a show ?thesis
      by (simp add: Deserialize_def FromCachedData_def SanityCheck_def Let_def)
  next
    case True
    with a show ?thesis
      by (simp add: Deserialize_def StartDeserializeOffThread_def
          FromCachedDataWithoutSource_def FinishOffThreadDeserialize_def
          FromPartiallySanityCheckedCachedData_def Let_def Reject_def)
  qed
next
  assume "i < 32 \<and> \<not> sd_size d < kHeaderSize B \<and>
    GetMagicNumber B d = kMagicNumber B XOR push_bit i 1"
  then show "SanityCheckWithoutSource B d = kMagicNumberMismatch"
    using flipped_bit_differs [of i "kMagicNumber B"]
    by (simp add: SanityCheckWithoutSource_def Let_def)
qed

theorem Deserialize_structural_failure_witness:
  "Deserialize example_Flags example_Runtime example_Build example_Isolate
     (example_cached_data (example_bytes[0 := 0xDF])) 10 example_opts
   = Return (example_Isolate\<lparr>code_cache_reject_reason := [1]\<rparr>,
             Reject (example_cached_data (example_bytes[0 := 0xDF])), None) \<and>
   Deserialize (example_Flags\<lparr>FLAG_stress_background_compile := True\<rparr>) example_Runtime
     example_Build example_Isolate
     (example_cached_data (example_bytes[0 := 0xDF])) 10 example_opts
   = Return (example_Isolate\<lparr>code_cache_reject_reason := [1]\<rparr>,
             Reject (example_cached_data (example_bytes[0 := 0xDF])), None)"
  using Deserialize_structural_failure [where F = example_Flags and R = example_Runtime
      and B = example_Build and isolate = example_Isolate
      and cd = "example_cached_data (example_bytes[0 := 0xDF])" and source = 10
      and origin_options = example_opts
      and od = "ObjectDeserializer_DeserializeSharedFunctionInfo example_Runtime"
      and otd = "OffThreadObjectDeserializer_DeserializeSharedFunctionInfo example_Runtime"
      and i = 0
      and d = "SerializedCodeData (example_cached_data (example_bytes[0 := 0xDF]))"]
   Deserialize_structural_failure [where F = "example_Flags\<lparr>FLAG_stress_background_compile := True\<rparr>" and R = example_Runtime
      and B = example_Build and isolate = example_Isolate
      and cd = "example_cached_data (example_bytes[0 := 0xDF])" and source = 10
      and origin_options = example_opts
      and od = "ObjectDeserializer_DeserializeSharedFunctionInfo example_Runtime"
      and otd = "OffThreadObjectDeserializer_DeserializeSharedFunctionInfo example_Runtime"
      and i = 0
      and d = "SerializedCodeData (example_cached_data (example_bytes[0 := 0xDF]))"]
  by (simp add: example_sanity_defs example_Flags_def example_Runtime_def example_Isolate_def)

subsection \<open>Finishing an off-thread deserialization\<close>
















subsection \<open>Reading and writing fields\<close>

lemma READ_WRITE_same [simp]: "READ_FIELD (WRITE_FIELD h p f v) p f = v"
  by (simp add: READ_FIELD_def WRITE_FIELD_def)

lemma READ_WRITE_other [simp]:
  "p' \<noteq> p \<or> f' \<noteq> f \<Longrightarrow> READ_FIELD (WRITE_FIELD h p f v) p' f' = READ_FIELD h p' f'"
  by (auto simp: READ_FIELD_def WRITE_FIELD_def)

lemma WRITE_READ_triv [simp]: "WRITE_FIELD h p f (READ_FIELD h p f) = h"
  by (simp add: READ_FIELD_def WRITE_FIELD_def)

lemma WRITE_WRITE_same [simp]: "WRITE_FIELD (WRITE_FIELD h p f v) p f w = WRITE_FIELD h p f w"
  by (simp add: WRITE_FIELD_def)

lemma instance_type_WRITE [simp]: "instance_type (WRITE_FIELD h p f v q) = instance_type (h q)"
  by (simp add: WRITE_FIELD_def)

lemma the_heap_update_heap [simp]: "the_heap (update_heap f s) = f (the_heap s)"
  by (simp add: the_heap_def update_heap_def)

lemma update_heap_fields [simp]:
  "cs_sink (update_heap f s) = cs_sink s" "cs_base (update_heap f s) = cs_base s"
  "cs_source_hash (update_heap f s) = cs_source_hash s"
  "roots (cs_isolate (update_heap f s)) = roots (cs_isolate s)"
  by (simp_all add: update_heap_def)

lemma chunk_index_loop_takeWhile:
  "chunk_index_loop chunk pages i = i + word_of_nat (length (takeWhile (\<lambda>p. p \<noteq> chunk) pages))"
  by (induction pages arbitrary: i) simp_all

lemma takeWhile_first_index:
  assumes "chunk \<in> set pages"
  shows "length (takeWhile (\<lambda>p. p \<noteq> chunk) pages) < length pages \<and>
         pages ! length (takeWhile (\<lambda>p. p \<noteq> chunk) pages) = chunk \<and>
         (\<forall>j < length (takeWhile (\<lambda>p. p \<noteq> chunk) pages). pages ! j \<noteq> chunk)"
  using assms
  by (induction pages) (auto simp: nth_Cons split: nat.splits)

subsection \<open>The order of the strategies\<close>

lemma SerializeReadOnlyObject_hit:
  assumes "ReadOnlyHeap_Contains X (cs_isolate s) obj"
  shows "SerializeReadOnlyObject X s obj =
           (True, s\<lparr>cs_sink := cs_sink s @
              [Put (kReadOnlyHeapRef X),
               PutInt (unat (word_of_nat (length (takeWhile
                  (\<lambda>p. p \<noteq> BasicMemoryChunk_FromAddress X obj)
                  (read_only_space_pages (cs_isolate s)))) :: uint32_t)),
               PutInt (unat (word_of_nat
                  (Offset X (BasicMemoryChunk_FromAddress X obj) obj) :: uint32_t))]\<rparr>)"
  using assms by (simp add: SerializeReadOnlyObject_def Let_def chunk_index_loop_takeWhile)

lemma SerializeReadOnlyObject_miss:
  "\<not> ReadOnlyHeap_Contains X (cs_isolate s) obj \<Longrightarrow> SerializeReadOnlyObject X s obj = (False, s)"
  by (simp add: SerializeReadOnlyObject_def)

lemma SerializeObjectImpl_generic:
  assumes "SerializeHotObject X s obj = (False, after_hot)"
    and "SerializeRoot X after_hot obj = (False, after_root)"
    and "SerializeBackReference X after_root obj = (False, reached)"
    and "\<not> ReadOnlyHeap_Contains X (cs_isolate reached) obj"
  shows "SerializeObjectImpl F X s obj =
           (if IsCode (the_heap reached) obj then Fatal reached
            else if ElideObject X reached obj
                 then SerializeObject X reached (undefined_value (roots (cs_isolate reached)))
            else if IsScript (the_heap reached) obj then SerializeObjectImpl_Script X reached obj
            else if IsSharedFunctionInfo (the_heap reached) obj
                 then SerializeObjectImpl_SharedFunctionInfo X reached obj
            else SerializeObjectImpl_rest F X reached obj)"
  using assms by (simp add: SerializeObjectImpl_def SerializeReadOnlyObject_miss)

lemmas example_serializer_defs =
  example_SerializerExt_def example_CodeSerializer_def example_Isolate_def example_roots_def
  example_heap_def mk_object_def example_Flags_def the_heap_def

subsection \<open>The blocks for scripts and functions\<close>

lemma WRITE_same_value: "READ_FIELD h p f = v \<Longrightarrow> WRITE_FIELD h p f v = h"
  using WRITE_READ_triv [of h p f] by simp

lemma update_heap_update_heap:
  "update_heap f (update_heap g s) = update_heap (\<lambda>h. f (g h)) s"
  by (simp add: update_heap_def)

lemma update_heap_const: "update_heap f s = update_heap (\<lambda>_. f (the_heap s)) s"
  by (simp add: update_heap_def the_heap_def)

lemma SerializeObjectImpl_Script_run:
  "SerializeObjectImpl_Script X s obj =
     (case ObjectSerializer_Serialize X
             (update_heap
                (\<lambda>_. WRITE_FIELD
                        (WRITE_FIELD (the_heap s) obj kContextDataOffset
                           (if context_data (the_heap s) obj
                                 = uninitialized_symbol (roots (cs_isolate s))
                            then uninitialized_symbol (roots (cs_isolate s))
                            else undefined_value (roots (cs_isolate s))))
                        obj kHostDefinedOptionsOffset (empty_fixed_array (roots (cs_isolate s))))
                s) obj of
        Fatal t \<Rightarrow> Fatal t
      | Return t \<Rightarrow>
          Return (update_heap
                    (\<lambda>h. WRITE_FIELD
                            (WRITE_FIELD h obj kHostDefinedOptionsOffset
                               (host_defined_options (the_heap s) obj))
                            obj kContextDataOffset (context_data (the_heap s) obj)) t))"
proof -
  let ?rts = "roots (cs_isolate s)"
  let ?cd = "context_data (the_heap s) obj"
  let ?after_hot = "if ?cd \<noteq> undefined_value ?rts \<and> ?cd \<noteq> uninitialized_symbol ?rts
             then update_heap (\<lambda>h. set_context_data h obj (undefined_value ?rts)) s else s"
  have after_hot: "the_heap ?after_hot = WRITE_FIELD (the_heap s) obj kContextDataOffset
              (if ?cd = uninitialized_symbol ?rts then uninitialized_symbol ?rts
               else undefined_value ?rts)"
    by (auto simp: set_context_data_def context_data_def WRITE_same_value)
  have host: "host_defined_options (the_heap ?after_hot) obj = host_defined_options (the_heap s) obj"
    unfolding after_hot by (simp add: host_defined_options_def)
  have enc: "update_heap (\<lambda>h. set_host_defined_options h obj (empty_fixed_array ?rts)) ?after_hot
        = update_heap
            (\<lambda>_. WRITE_FIELD
                    (WRITE_FIELD (the_heap s) obj kContextDataOffset
                       (if ?cd = uninitialized_symbol ?rts then uninitialized_symbol ?rts
                        else undefined_value ?rts))
                    obj kHostDefinedOptionsOffset (empty_fixed_array ?rts)) s"
  proof -
    have "update_heap (\<lambda>h. set_host_defined_options h obj (empty_fixed_array ?rts)) ?after_hot
        = update_heap (\<lambda>_. set_host_defined_options (the_heap ?after_hot) obj (empty_fixed_array ?rts)) ?after_hot"
      by (rule update_heap_const)
    also have "\<dots> = update_heap
            (\<lambda>_. set_host_defined_options (the_heap ?after_hot) obj (empty_fixed_array ?rts)) s"
      by (simp add: update_heap_def)
    finally show ?thesis unfolding after_hot by (simp add: set_host_defined_options_def)
  qed
  show ?thesis
    unfolding SerializeObjectImpl_Script_def SerializeGeneric_def Let_def enc host
    by (simp add: set_context_data_def set_host_defined_options_def split: Exit.splits)
qed

lemma SerializeObjectImpl_SharedFunctionInfo_run:
  assumes "HasDebugInfo (the_heap s) obj"
  shows "SerializeObjectImpl_SharedFunctionInfo X s obj =
     (case ObjectSerializer_Serialize X
             (update_heap
                (\<lambda>_. WRITE_FIELD
                        (if HasInstrumentedBytecodeArray (the_heap s) (GetDebugInfo (the_heap s) obj)
                         then WRITE_FIELD (the_heap s) obj kFunctionDataOffset
                                (OriginalBytecodeArray (the_heap s) (GetDebugInfo (the_heap s) obj))
                         else the_heap s)
                        obj kScriptOrDebugInfoOffset
                        (DebugInfo_script (the_heap s) (GetDebugInfo (the_heap s) obj)))
                s) obj of
        Fatal t \<Rightarrow> Fatal t
      | Return t \<Rightarrow>
          Return (update_heap
                    (\<lambda>h. if HasInstrumentedBytecodeArray (the_heap s)
                                (GetDebugInfo (the_heap s) obj)
                          then WRITE_FIELD
                                 (WRITE_FIELD h obj kScriptOrDebugInfoOffset
                                    (GetDebugInfo (the_heap s) obj))
                                 obj kFunctionDataOffset
                                 (DebugBytecodeArray (the_heap s) (GetDebugInfo (the_heap s) obj))
                          else WRITE_FIELD h obj kScriptOrDebugInfoOffset
                                 (GetDebugInfo (the_heap s) obj)) t))"
  using assms
  by (simp add: SerializeObjectImpl_SharedFunctionInfo_def SerializeGeneric_def Let_def
      SetActiveBytecodeArray_def set_script_or_debug_info_def DebugInfo_script_def
      split: Exit.splits)

lemma SerializeObjectImpl_reaches_Script:
  assumes "SerializeHotObject X s obj = (False, after_hot)"
    and "SerializeRoot X after_hot obj = (False, after_root)"
    and "SerializeBackReference X after_root obj = (False, reached)"
    and "\<not> ReadOnlyHeap_Contains X (cs_isolate reached) obj"
    and "\<not> IsCode (the_heap reached) obj"
    and "\<not> ElideObject X reached obj"
    and "IsScript (the_heap reached) obj"
  shows "SerializeObjectImpl F X s obj = SerializeObjectImpl_Script X reached obj"
  using assms by (simp add: SerializeObjectImpl_generic)

lemma SerializeObjectImpl_reaches_SharedFunctionInfo:
  assumes "SerializeHotObject X s obj = (False, after_hot)"
    and "SerializeRoot X after_hot obj = (False, after_root)"
    and "SerializeBackReference X after_root obj = (False, reached)"
    and "\<not> ReadOnlyHeap_Contains X (cs_isolate reached) obj"
    and "\<not> IsCode (the_heap reached) obj"
    and "\<not> ElideObject X reached obj"
    and "\<not> IsScript (the_heap reached) obj"
    and "IsSharedFunctionInfo (the_heap reached) obj"
  shows "SerializeObjectImpl F X s obj = SerializeObjectImpl_SharedFunctionInfo X reached obj"
  using assms by (simp add: SerializeObjectImpl_generic)

text \<open>
  C5 (as amended). For a Script that reaches its block, the generic encoder runs on a
  heap in which the host-defined options of the script are the empty fixed array and
  its context data is undefined, unless the context data is the uninitialized symbol,
  which stays. When the generic encoder returns, \<^verbatim>\<open>SerializeObjectImpl\<close> returns with
  both fields at the values they had before, and with nothing else changed in what the
  encoder left. When the generic encoder ends in a failed \<^verbatim>\<open>CHECK\<close>, so does
  \<^verbatim>\<open>SerializeObjectImpl\<close>, in the encoder's state: nothing is restored.
\<close>

theorem Script_fields_restored:
  assumes "SerializeHotObject X s obj = (False, after_hot)"
    and "SerializeRoot X after_hot obj = (False, after_root)"
    and "SerializeBackReference X after_root obj = (False, reached)"
    and "\<not> ReadOnlyHeap_Contains X (cs_isolate reached) obj"
    and "\<not> IsCode (the_heap reached) obj"
    and "\<not> ElideObject X reached obj"
    and "IsScript (the_heap reached) obj"
  shows
    "let rts = roots (cs_isolate reached);
         saved_context_data = context_data (the_heap reached) obj;
         saved_host_options = host_defined_options (the_heap reached) obj;
         enc = update_heap
                 (\<lambda>_. WRITE_FIELD
                         (WRITE_FIELD (the_heap reached) obj kContextDataOffset
                            (if saved_context_data = uninitialized_symbol rts
                             then uninitialized_symbol rts else undefined_value rts))
                         obj kHostDefinedOptionsOffset (empty_fixed_array rts)) reached
     in host_defined_options (the_heap enc) obj = empty_fixed_array rts \<and>
        context_data (the_heap enc) obj =
          (if saved_context_data = uninitialized_symbol rts
           then uninitialized_symbol rts else undefined_value rts) \<and>
        (case ObjectSerializer_Serialize X enc obj of
           Fatal t \<Rightarrow> SerializeObjectImpl F X s obj = Fatal t
         | Return t \<Rightarrow>
             is_Return (SerializeObjectImpl F X s obj) \<and>
             (let t' = exit_state (SerializeObjectImpl F X s obj)
              in context_data (the_heap t') obj = saved_context_data \<and>
                 host_defined_options (the_heap t') obj = saved_host_options \<and>
                 cs_sink t' = cs_sink t \<and> cs_base t' = cs_base t \<and>
                 (\<forall>p f. p \<noteq> obj \<or> (f \<noteq> kContextDataOffset \<and> f \<noteq> kHostDefinedOptionsOffset)
                    \<longrightarrow> READ_FIELD (the_heap t') p f = READ_FIELD (the_heap t) p f)))"
  unfolding SerializeObjectImpl_reaches_Script [OF assms] SerializeObjectImpl_Script_run Let_def
  by (auto simp: context_data_def host_defined_options_def split: Exit.splits)


lemmas example_run_defs =
  SerializeObjectImpl_def SerializeReadOnlyObject_def SerializeObjectImpl_Script_def
  SerializeObjectImpl_SharedFunctionInfo_def SerializeObjectImpl_rest_def SerializeGeneric_def
  IsCode_def IsScript_def IsSharedFunctionInfo_def update_heap_def
  set_context_data_def set_host_defined_options_def context_data_def host_defined_options_def
  set_script_or_debug_info_def script_or_debug_info_def HasDebugInfo_def GetDebugInfo_def
  ActiveBytecodeArray_def SetActiveBytecodeArray_def DebugInfo_script_def DebugBytecodeArray_def
  OriginalBytecodeArray_def HasInstrumentedBytecodeArray_def
  WRITE_FIELD_def READ_FIELD_def Let_def

theorem Script_fields_restored_witness:
  "is_Return (SerializeObjectImpl example_Flags example_SerializerExt example_CodeSerializer 20) \<and>
   cs_sink (exit_state
      (SerializeObjectImpl example_Flags example_SerializerExt example_CodeSerializer 20))
     = [PutInt 1, PutInt 3, PutInt 10, PutInt 0, PutInt 0] \<and>
   context_data (the_heap (exit_state
      (SerializeObjectImpl example_Flags example_SerializerExt example_CodeSerializer 20))) 20
     = 30 \<and>
   host_defined_options (the_heap (exit_state
      (SerializeObjectImpl example_Flags example_SerializerExt example_CodeSerializer 20))) 20
     = 31 \<and>
   SerializeObjectImpl example_Flags example_SerializerExt example_CodeSerializer 22
     = Fatal (update_heap
                (\<lambda>_. WRITE_FIELD (WRITE_FIELD example_heap 22 kContextDataOffset 1) 22
                        kHostDefinedOptionsOffset 3)
                example_CodeSerializer)"
  using Script_fields_restored [where F = example_Flags and X = example_SerializerExt
      and s = example_CodeSerializer and obj = 22 and after_hot = example_CodeSerializer
      and after_root = example_CodeSerializer and reached = example_CodeSerializer]
    Script_fields_restored [where F = example_Flags and X = example_SerializerExt
      and s = example_CodeSerializer and obj = 20 and after_hot = example_CodeSerializer
      and after_root = example_CodeSerializer and reached = example_CodeSerializer]
  by (simp add: example_serializer_defs example_run_defs)

text \<open>
  C5 as stated fails twice. The script 21 has the uninitialized symbol (2) for context
  data: the generic encoder is given that value, not the default (undefined, 1). The
  script 22 makes the generic encoder fail: the run ends in \<open>Fatal\<close> with the host
  options at the empty array (3, before 31) and the context data at undefined (1,
  before 30).
\<close>

theorem Script_fields_counterexample:
  "cs_sink (exit_state
      (SerializeObjectImpl example_Flags example_SerializerExt example_CodeSerializer 21))
     = [PutInt 2, PutInt 3, PutInt 10, PutInt 0, PutInt 0] \<and>
   uninitialized_symbol example_roots = 2 \<and> undefined_value example_roots = 1 \<and>
   IsScript example_heap 21 \<and> IsScript example_heap 22 \<and>
   \<not> is_Return
       (SerializeObjectImpl example_Flags example_SerializerExt example_CodeSerializer 22) \<and>
   host_defined_options (the_heap (exit_state
      (SerializeObjectImpl example_Flags example_SerializerExt example_CodeSerializer 22))) 22
     = 3 \<and>
   host_defined_options example_heap 22 = 31 \<and>
   context_data (the_heap (exit_state
      (SerializeObjectImpl example_Flags example_SerializerExt example_CodeSerializer 22))) 22
     = 1 \<and>
   context_data example_heap 22 = 30"
  by (simp add: example_serializer_defs example_run_defs)

text \<open>
  C10. In the heap the generic encoder is given, the context data of the script
  differs from its value before exactly when that value was neither undefined nor the
  uninitialized symbol, and is then undefined; a context data equal to the
  uninitialized symbol is encoded as it is, so that (the two roots being different
  objects) the encoded field is the uninitialized symbol exactly for the scripts that
  had it. The host-defined options are the empty fixed array whatever they were, and
  nothing else in the heap differs.
\<close>

theorem Script_context_data_sentinel:
  assumes "SerializeHotObject X s obj = (False, after_hot)"
    and "SerializeRoot X after_hot obj = (False, after_root)"
    and "SerializeBackReference X after_root obj = (False, reached)"
    and "\<not> ReadOnlyHeap_Contains X (cs_isolate reached) obj"
    and "\<not> IsCode (the_heap reached) obj"
    and "\<not> ElideObject X reached obj"
    and "IsScript (the_heap reached) obj"
  shows
    "let rts = roots (cs_isolate reached);
         saved_context_data = context_data (the_heap reached) obj;
         enc = update_heap
                 (\<lambda>_. WRITE_FIELD
                         (WRITE_FIELD (the_heap reached) obj kContextDataOffset
                            (if saved_context_data = uninitialized_symbol rts
                             then uninitialized_symbol rts else undefined_value rts))
                         obj kHostDefinedOptionsOffset (empty_fixed_array rts)) reached
     in SerializeObjectImpl F X s obj =
          (case ObjectSerializer_Serialize X enc obj of
             Fatal t \<Rightarrow> Fatal t
           | Return t \<Rightarrow>
               Return (update_heap
                         (\<lambda>h. WRITE_FIELD
                                 (WRITE_FIELD h obj kHostDefinedOptionsOffset
                                    (host_defined_options (the_heap reached) obj))
                                 obj kContextDataOffset saved_context_data) t)) \<and>
        (context_data (the_heap enc) obj \<noteq> saved_context_data) =
          (saved_context_data \<noteq> undefined_value rts \<and>
           saved_context_data \<noteq> uninitialized_symbol rts) \<and>
        (saved_context_data \<noteq> undefined_value rts \<and>
         saved_context_data \<noteq> uninitialized_symbol rts
           \<longrightarrow> context_data (the_heap enc) obj = undefined_value rts) \<and>
        (saved_context_data = uninitialized_symbol rts
           \<longrightarrow> context_data (the_heap enc) obj = uninitialized_symbol rts) \<and>
        (uninitialized_symbol rts \<noteq> undefined_value rts
           \<longrightarrow> (context_data (the_heap enc) obj = uninitialized_symbol rts)
                 = (saved_context_data = uninitialized_symbol rts)) \<and>
        host_defined_options (the_heap enc) obj = empty_fixed_array rts \<and>
        cs_sink enc = cs_sink reached \<and>
        (\<forall>p f. p \<noteq> obj \<or> (f \<noteq> kContextDataOffset \<and> f \<noteq> kHostDefinedOptionsOffset)
           \<longrightarrow> READ_FIELD (the_heap enc) p f = READ_FIELD (the_heap reached) p f)"
  unfolding SerializeObjectImpl_reaches_Script [OF assms] SerializeObjectImpl_Script_run Let_def
  by (auto simp: context_data_def host_defined_options_def)

theorem Script_context_data_sentinel_witness:
  "is_Return (SerializeObjectImpl example_Flags example_SerializerExt example_CodeSerializer 21) \<and>
   context_data example_heap 21 = uninitialized_symbol example_roots \<and>
   hd (cs_sink (exit_state
      (SerializeObjectImpl example_Flags example_SerializerExt example_CodeSerializer 21)))
     = PutInt (uninitialized_symbol example_roots) \<and>
   context_data example_heap 20 = 30 \<and>
   hd (cs_sink (exit_state
      (SerializeObjectImpl example_Flags example_SerializerExt example_CodeSerializer 20)))
     = PutInt (undefined_value example_roots) \<and>
   cs_sink (exit_state
      (SerializeObjectImpl example_Flags example_SerializerExt example_CodeSerializer 21)) ! 1
     = PutInt (empty_fixed_array example_roots)"
  using Script_context_data_sentinel [where F = example_Flags and X = example_SerializerExt
      and s = example_CodeSerializer and obj = 21 and after_hot = example_CodeSerializer
      and after_root = example_CodeSerializer and reached = example_CodeSerializer]
    Script_context_data_sentinel [where F = example_Flags and X = example_SerializerExt
      and s = example_CodeSerializer and obj = 20 and after_hot = example_CodeSerializer
      and after_root = example_CodeSerializer and reached = example_CodeSerializer]
  by (simp add: example_serializer_defs example_run_defs)

text \<open>
  C7. For a SharedFunctionInfo with debug info that reaches its block, the generic
  encoder runs on a heap in which the function's \<^verbatim>\<open>script_or_debug_info\<close> is the
  script of the debug info (no debug info, when that script is not itself one) and, if
  the debug info has an instrumented bytecode array, the active bytecode is the
  original one. When the encoder returns, the debug info is put back first and then,
  if there is one, the instrumented bytecode; if the encoder left the function's record
  as it found it and the active bytecode before was the instrumented one, the record
  after \<^verbatim>\<open>SerializeObjectImpl\<close> is the record before.
\<close>

theorem SharedFunctionInfo_debug_swap:
  assumes "SerializeHotObject X s obj = (False, after_hot)"
    and "SerializeRoot X after_hot obj = (False, after_root)"
    and "SerializeBackReference X after_root obj = (False, reached)"
    and "\<not> ReadOnlyHeap_Contains X (cs_isolate reached) obj"
    and "\<not> IsCode (the_heap reached) obj"
    and "\<not> ElideObject X reached obj"
    and "\<not> IsScript (the_heap reached) obj"
    and "IsSharedFunctionInfo (the_heap reached) obj"
    and "HasDebugInfo (the_heap reached) obj"
  shows
    "let h = the_heap reached;
         debug_info = GetDebugInfo h obj;
         instrumented = HasInstrumentedBytecodeArray h debug_info;
         enc = update_heap
                 (\<lambda>_. WRITE_FIELD
                         (if instrumented
                          then WRITE_FIELD h obj kFunctionDataOffset
                                 (OriginalBytecodeArray h debug_info)
                          else h)
                         obj kScriptOrDebugInfoOffset (DebugInfo_script h debug_info)) reached
     in script_or_debug_info (the_heap enc) obj = DebugInfo_script h debug_info \<and>
        (instance_type (h (DebugInfo_script h debug_info)) \<noteq> DEBUG_INFO_TYPE
           \<longrightarrow> \<not> HasDebugInfo (the_heap enc) obj) \<and>
        (instrumented
           \<longrightarrow> ActiveBytecodeArray (the_heap enc) obj = OriginalBytecodeArray h debug_info) \<and>
        (\<not> instrumented
           \<longrightarrow> ActiveBytecodeArray (the_heap enc) obj = ActiveBytecodeArray h obj) \<and>
        (case ObjectSerializer_Serialize X enc obj of
           Fatal t \<Rightarrow> SerializeObjectImpl F X s obj = Fatal t
         | Return t \<Rightarrow>
             is_Return (SerializeObjectImpl F X s obj) \<and>
             (let t' = exit_state (SerializeObjectImpl F X s obj)
              in cs_sink t' = cs_sink t \<and> cs_base t' = cs_base t \<and>
                 script_or_debug_info (the_heap t') obj = debug_info \<and>
                 (instrumented
                    \<longrightarrow> ActiveBytecodeArray (the_heap t') obj
                          = DebugBytecodeArray h debug_info) \<and>
                 (\<not> instrumented
                    \<longrightarrow> ActiveBytecodeArray (the_heap t') obj
                          = ActiveBytecodeArray (the_heap t) obj) \<and>
                 (the_heap t obj = the_heap enc obj \<and>
                  (instrumented
                     \<longrightarrow> ActiveBytecodeArray h obj = DebugBytecodeArray h debug_info)
                    \<longrightarrow> the_heap t' obj = h obj)))"
proof -
  note run = SerializeObjectImpl_SharedFunctionInfo_run [OF assms(9), of X]
  show ?thesis
    unfolding SerializeObjectImpl_reaches_SharedFunctionInfo [OF assms(1-8)] run Let_def
    by (auto simp: script_or_debug_info_def ActiveBytecodeArray_def HasDebugInfo_def
        GetDebugInfo_def WRITE_FIELD_def READ_FIELD_def fun_upd_twist
        split: Exit.splits intro!: HeapObject.equality)
qed


theorem SharedFunctionInfo_debug_swap_witness:
  "is_Return (SerializeObjectImpl example_Flags example_SerializerExt example_CodeSerializer 50) \<and>
   cs_sink (exit_state
      (SerializeObjectImpl example_Flags example_SerializerExt example_CodeSerializer 50))
     = [PutInt 0, PutInt 0, PutInt 0, PutInt 20, PutInt 71] \<and>
   the_heap (exit_state
      (SerializeObjectImpl example_Flags example_SerializerExt example_CodeSerializer 50)) 50
     = example_heap 50 \<and>
   script_or_debug_info example_heap 50 = 60 \<and> ActiveBytecodeArray example_heap 50 = 72 \<and>
   DebugInfo_script example_heap 60 = 20 \<and> OriginalBytecodeArray example_heap 60 = 71 \<and>
   DebugBytecodeArray example_heap 60 = 72 \<and>
   \<not> HasInstrumentedBytecodeArray example_heap 61 \<and>
   cs_sink (exit_state
      (SerializeObjectImpl example_Flags example_SerializerExt example_CodeSerializer 51))
     = [PutInt 0, PutInt 0, PutInt 0, PutInt 20, PutInt 71] \<and>
   the_heap (exit_state
      (SerializeObjectImpl example_Flags example_SerializerExt example_CodeSerializer 51)) 51
     = example_heap 51"
  using SharedFunctionInfo_debug_swap [where F = example_Flags
      and X = example_SerializerExt and s = example_CodeSerializer and obj = 51
      and after_hot = example_CodeSerializer and after_root = example_CodeSerializer
      and reached = example_CodeSerializer]
    SharedFunctionInfo_debug_swap [where F = example_Flags
      and X = example_SerializerExt and s = example_CodeSerializer and obj = 50
      and after_hot = example_CodeSerializer and after_root = example_CodeSerializer
      and reached = example_CodeSerializer]
  by (simp add: example_serializer_defs example_run_defs)

subsection \<open>The dispatch as a whole\<close>

lemma SerializeObjectImpl_SharedFunctionInfo_plain:
  assumes "\<not> HasDebugInfo (the_heap s) obj"
  shows "SerializeObjectImpl_SharedFunctionInfo X s obj = ObjectSerializer_Serialize X s obj"
proof -
  have "update_heap (\<lambda>_. the_heap s) s = s" by (simp add: update_heap_def the_heap_def)
  then show ?thesis using assms
    by (simp add: SerializeObjectImpl_SharedFunctionInfo_def SerializeGeneric_def Let_def
        split: Exit.splits)
qed

lemma SerializeObjectImpl_rest_run:
  "SerializeObjectImpl_rest F X s obj =
     (let h = the_heap s;
          target = (if \<not> V8_TARGET_ARCH_ARM F \<and> FLAG_interpreted_frames_native_stack F \<and>
                       IsInterpreterData h obj
                    then InterpreterData_bytecode_array h obj else obj)
      in if IsMap h target \<or> IsJSGlobalProxy h target \<or> IsJSGlobalObject h target \<or>
            (NeedsRehashing X h target \<and> \<not> CanBeRehashed X h target) \<or>
            IsJSFunction h target \<or> IsContext h target
         then Fatal s else ObjectSerializer_Serialize X s target)"
  by (auto simp: SerializeObjectImpl_rest_def SerializeGeneric_def Let_def)

lemma SerializeObjectImpl_generic_run:
  assumes "SerializeHotObject X s obj = (False, after_hot)"
    and "SerializeRoot X after_hot obj = (False, after_root)"
    and "SerializeBackReference X after_root obj = (False, reached)"
    and "\<not> ReadOnlyHeap_Contains X (cs_isolate reached) obj"
  shows "SerializeObjectImpl F X s obj =
     (let h = the_heap reached; rts = roots (cs_isolate reached) in
      if IsCode h obj then Fatal reached
      else if ElideObject X reached obj then SerializeObject X reached (undefined_value rts)
      else if IsScript h obj then
        (case ObjectSerializer_Serialize X
                (update_heap
                   (\<lambda>_. WRITE_FIELD
                           (WRITE_FIELD h obj kContextDataOffset
                              (if context_data h obj = uninitialized_symbol rts
                               then uninitialized_symbol rts else undefined_value rts))
                           obj kHostDefinedOptionsOffset (empty_fixed_array rts))
                   reached) obj of
           Fatal t \<Rightarrow> Fatal t
         | Return t \<Rightarrow>
             Return (update_heap
                       (\<lambda>h'. WRITE_FIELD
                               (WRITE_FIELD h' obj kHostDefinedOptionsOffset
                                  (host_defined_options h obj))
                               obj kContextDataOffset (context_data h obj)) t))
      else if IsSharedFunctionInfo h obj then
        (if \<not> HasDebugInfo h obj then ObjectSerializer_Serialize X reached obj
         else
           (let debug_info = GetDebugInfo h obj in
            case ObjectSerializer_Serialize X
                   (update_heap
                      (\<lambda>_. WRITE_FIELD
                              (if HasInstrumentedBytecodeArray h debug_info
                               then WRITE_FIELD h obj kFunctionDataOffset
                                      (OriginalBytecodeArray h debug_info)
                               else h)
                              obj kScriptOrDebugInfoOffset (DebugInfo_script h debug_info))
                      reached) obj of
              Fatal t \<Rightarrow> Fatal t
            | Return t \<Rightarrow>
                Return (update_heap
                          (\<lambda>h'. if HasInstrumentedBytecodeArray h debug_info
                                then WRITE_FIELD
                                       (WRITE_FIELD h' obj kScriptOrDebugInfoOffset debug_info)
                                       obj kFunctionDataOffset (DebugBytecodeArray h debug_info)
                                else WRITE_FIELD h' obj kScriptOrDebugInfoOffset debug_info) t)))
      else
        (let target = (if \<not> V8_TARGET_ARCH_ARM F \<and> FLAG_interpreted_frames_native_stack F \<and>
                          IsInterpreterData h obj
                       then InterpreterData_bytecode_array h obj else obj)
         in if IsMap h target \<or> IsJSGlobalProxy h target \<or> IsJSGlobalObject h target \<or>
               (NeedsRehashing X h target \<and> \<not> CanBeRehashed X h target) \<or>
               IsJSFunction h target \<or> IsContext h target
            then Fatal reached else ObjectSerializer_Serialize X reached target))"
proof -
  note dispatch = SerializeObjectImpl_generic [OF assms, of F]
  show ?thesis
  proof (cases "IsSharedFunctionInfo (the_heap reached) obj \<and> HasDebugInfo (the_heap reached) obj")
    case True
    then show ?thesis
      unfolding dispatch Let_def
      by (simp add: SerializeObjectImpl_Script_run SerializeObjectImpl_SharedFunctionInfo_run)
  next
    case False
    then show ?thesis
      unfolding dispatch Let_def
      using SerializeObjectImpl_rest_run [of F X reached obj]
      by (auto simp: SerializeObjectImpl_Script_run SerializeObjectImpl_SharedFunctionInfo_plain
          Let_def)
  qed
qed

lemma SerializeObjectImpl_ordinary:
  assumes "SerializeHotObject X s obj = (False, after_hot)"
    and "SerializeRoot X after_hot obj = (False, after_root)"
    and "SerializeBackReference X after_root obj = (False, reached)"
    and "\<not> ReadOnlyHeap_Contains X (cs_isolate reached) obj"
    and "\<not> IsCode (the_heap reached) obj" and "\<not> ElideObject X reached obj"
    and "\<not> IsScript (the_heap reached) obj" and "\<not> IsSharedFunctionInfo (the_heap reached) obj"
    and "\<not> IsInterpreterData (the_heap reached) obj" and "\<not> IsMap (the_heap reached) obj"
    and "\<not> IsJSGlobalProxy (the_heap reached) obj" and "\<not> IsJSGlobalObject (the_heap reached) obj"
    and "NeedsRehashing X (the_heap reached) obj \<longrightarrow> CanBeRehashed X (the_heap reached) obj"
    and "\<not> IsJSFunction (the_heap reached) obj" and "\<not> IsContext (the_heap reached) obj"
  shows "SerializeObjectImpl F X s obj = ObjectSerializer_Serialize X reached obj"
  using assms(5-)
  unfolding SerializeObjectImpl_generic [OF assms(1-4), of F]
  by (auto simp: SerializeObjectImpl_rest_def SerializeGeneric_def Let_def)

text \<open>
  C6. \<^verbatim>\<open>SerializeObjectImpl\<close> tries its strategies in a fixed order and the first hit
  returns: the hot object cache, then the root table, then the back-reference table,
  then the read-only heap, whose reference is the marker followed by the chunk index
  and the offset in the chunk. The chunk index is the number of pages before the first
  page equal to the object's chunk; when the chunk is a page of the space (and the
  space has at most \<open>2^32\<close> pages) it is the position of the chunk in the list of
  pages. Only when all four miss does the generic part run, and what it does is: a
  Code object is fatal; an elided object is replaced by undefined, which is serialized
  in its place; a Script is passed to \<^verbatim>\<open>ObjectSerializer::Serialize\<close> with its context
  data and host-defined options replaced, and both are put back on return; a
  SharedFunctionInfo is passed to it with its debug info (and instrumented bytecode)
  taken out and put back on return, or as it is when it has no debug info; for any
  other object the bytecode array stands for an InterpreterData under the flag, a map,
  a global proxy or object, an object that needs but does not support rehashing, a
  function and a context are fatal, and the object is passed to
  \<^verbatim>\<open>ObjectSerializer::Serialize\<close> on the state that the four misses left. In
  particular an object of none of these kinds is encoded by
  \<^verbatim>\<open>ObjectSerializer::Serialize\<close>, applied to that object and that state.
\<close>

theorem SerializeObjectImpl_priority:
  "(SerializeHotObject X s obj = (True, after_hot) \<longrightarrow> SerializeObjectImpl F X s obj = Return after_hot) \<and>
   (SerializeHotObject X s obj = (False, after_hot) \<and> SerializeRoot X after_hot obj = (True, after_root)
      \<longrightarrow> SerializeObjectImpl F X s obj = Return after_root) \<and>
   (SerializeHotObject X s obj = (False, after_hot) \<and> SerializeRoot X after_hot obj = (False, after_root) \<and>
    SerializeBackReference X after_root obj = (True, reached)
      \<longrightarrow> SerializeObjectImpl F X s obj = Return reached) \<and>
   (SerializeHotObject X s obj = (False, after_hot) \<and> SerializeRoot X after_hot obj = (False, after_root) \<and>
    SerializeBackReference X after_root obj = (False, reached) \<and>
    ReadOnlyHeap_Contains X (cs_isolate reached) obj
      \<longrightarrow> (let chunk = BasicMemoryChunk_FromAddress X obj;
               pages = read_only_space_pages (cs_isolate reached);
               position = length (takeWhile (\<lambda>p. p \<noteq> chunk) pages);
               chunk_index = (word_of_nat position :: uint32_t);
               chunk_offset = (word_of_nat (Offset X chunk obj) :: uint32_t)
           in SerializeObjectImpl F X s obj
                = Return (reached\<lparr>cs_sink := cs_sink reached @
                    [Put (kReadOnlyHeapRef X), PutInt (unat chunk_index),
                     PutInt (unat chunk_offset)]\<rparr>) \<and>
              (chunk \<in> set pages \<and> length pages \<le> 2 ^ 32
                 \<longrightarrow> unat chunk_index = position \<and> position < length pages \<and>
                     pages ! position = chunk \<and> (\<forall>j < position. pages ! j \<noteq> chunk)))) \<and>
   (SerializeHotObject X s obj = (False, after_hot) \<and> SerializeRoot X after_hot obj = (False, after_root) \<and>
    SerializeBackReference X after_root obj = (False, reached) \<and>
    \<not> ReadOnlyHeap_Contains X (cs_isolate reached) obj
      \<longrightarrow> SerializeObjectImpl F X s obj =
           (let h = the_heap reached; rts = roots (cs_isolate reached) in
            if IsCode h obj then Fatal reached
            else if ElideObject X reached obj then SerializeObject X reached (undefined_value rts)
            else if IsScript h obj then
              (case ObjectSerializer_Serialize X
                      (update_heap
                         (\<lambda>_. WRITE_FIELD
                                 (WRITE_FIELD h obj kContextDataOffset
                                    (if context_data h obj = uninitialized_symbol rts
                                     then uninitialized_symbol rts else undefined_value rts))
                                 obj kHostDefinedOptionsOffset (empty_fixed_array rts))
                         reached) obj of
                 Fatal t \<Rightarrow> Fatal t
               | Return t \<Rightarrow>
                   Return (update_heap
                             (\<lambda>h'. WRITE_FIELD
                                     (WRITE_FIELD h' obj kHostDefinedOptionsOffset
                                        (host_defined_options h obj))
                                     obj kContextDataOffset (context_data h obj)) t))
            else if IsSharedFunctionInfo h obj then
              (if \<not> HasDebugInfo h obj then ObjectSerializer_Serialize X reached obj
               else
                 (let debug_info = GetDebugInfo h obj in
                  case ObjectSerializer_Serialize X
                         (update_heap
                            (\<lambda>_. WRITE_FIELD
                                    (if HasInstrumentedBytecodeArray h debug_info
                                     then WRITE_FIELD h obj kFunctionDataOffset
                                            (OriginalBytecodeArray h debug_info)
                                     else h)
                                    obj kScriptOrDebugInfoOffset (DebugInfo_script h debug_info))
                            reached) obj of
                    Fatal t \<Rightarrow> Fatal t
                  | Return t \<Rightarrow>
                      Return (update_heap
                                (\<lambda>h'. if HasInstrumentedBytecodeArray h debug_info
                                      then WRITE_FIELD
                                             (WRITE_FIELD h' obj kScriptOrDebugInfoOffset debug_info)
                                             obj kFunctionDataOffset (DebugBytecodeArray h debug_info)
                                      else WRITE_FIELD h' obj kScriptOrDebugInfoOffset debug_info) t)))
            else
              (let target = (if \<not> V8_TARGET_ARCH_ARM F \<and> FLAG_interpreted_frames_native_stack F \<and>
                                IsInterpreterData h obj
                             then InterpreterData_bytecode_array h obj else obj)
               in if IsMap h target \<or> IsJSGlobalProxy h target \<or> IsJSGlobalObject h target \<or>
                     (NeedsRehashing X h target \<and> \<not> CanBeRehashed X h target) \<or>
                     IsJSFunction h target \<or> IsContext h target
                  then Fatal reached else ObjectSerializer_Serialize X reached target))) \<and>
   (SerializeHotObject X s obj = (False, after_hot) \<and> SerializeRoot X after_hot obj = (False, after_root) \<and>
    SerializeBackReference X after_root obj = (False, reached) \<and>
    \<not> ReadOnlyHeap_Contains X (cs_isolate reached) obj \<and>
    \<not> IsCode (the_heap reached) obj \<and> \<not> ElideObject X reached obj \<and>
    \<not> IsScript (the_heap reached) obj \<and> \<not> IsSharedFunctionInfo (the_heap reached) obj \<and>
    \<not> IsInterpreterData (the_heap reached) obj \<and> \<not> IsMap (the_heap reached) obj \<and>
    \<not> IsJSGlobalProxy (the_heap reached) obj \<and> \<not> IsJSGlobalObject (the_heap reached) obj \<and>
    (NeedsRehashing X (the_heap reached) obj \<longrightarrow> CanBeRehashed X (the_heap reached) obj) \<and>
    \<not> IsJSFunction (the_heap reached) obj \<and> \<not> IsContext (the_heap reached) obj
      \<longrightarrow> SerializeObjectImpl F X s obj = ObjectSerializer_Serialize X reached obj)"
proof -
  have c_hot: "SerializeHotObject X s obj = (True, after_hot) \<longrightarrow> SerializeObjectImpl F X s obj = Return after_hot"
    by (simp add: SerializeObjectImpl_def)
  have c_root: "SerializeHotObject X s obj = (False, after_hot) \<and> SerializeRoot X after_hot obj = (True, after_root)
      \<longrightarrow> SerializeObjectImpl F X s obj = Return after_root"
    by (simp add: SerializeObjectImpl_def)
  have c_back: "SerializeHotObject X s obj = (False, after_hot) \<and> SerializeRoot X after_hot obj = (False, after_root) \<and>
    SerializeBackReference X after_root obj = (True, reached)
      \<longrightarrow> SerializeObjectImpl F X s obj = Return reached"
    by (simp add: SerializeObjectImpl_def)
  have c_ro: "SerializeHotObject X s obj = (False, after_hot) \<and> SerializeRoot X after_hot obj = (False, after_root) \<and>
    SerializeBackReference X after_root obj = (False, reached) \<and>
    ReadOnlyHeap_Contains X (cs_isolate reached) obj
      \<longrightarrow> (let chunk = BasicMemoryChunk_FromAddress X obj;
               pages = read_only_space_pages (cs_isolate reached);
               position = length (takeWhile (\<lambda>p. p \<noteq> chunk) pages);
               chunk_index = (word_of_nat position :: uint32_t);
               chunk_offset = (word_of_nat (Offset X chunk obj) :: uint32_t)
           in SerializeObjectImpl F X s obj
                = Return (reached\<lparr>cs_sink := cs_sink reached @
                    [Put (kReadOnlyHeapRef X), PutInt (unat chunk_index),
                     PutInt (unat chunk_offset)]\<rparr>) \<and>
              (chunk \<in> set pages \<and> length pages \<le> 2 ^ 32
                 \<longrightarrow> unat chunk_index = position \<and> position < length pages \<and>
                     pages ! position = chunk \<and> (\<forall>j < position. pages ! j \<noteq> chunk)))"
  proof (intro impI)
    assume a: "SerializeHotObject X s obj = (False, after_hot) \<and> SerializeRoot X after_hot obj = (False, after_root) \<and>
      SerializeBackReference X after_root obj = (False, reached) \<and>
      ReadOnlyHeap_Contains X (cs_isolate reached) obj"
    let ?chunk = "BasicMemoryChunk_FromAddress X obj"
    let ?pages = "read_only_space_pages (cs_isolate reached)"
    let ?position = "length (takeWhile (\<lambda>p. p \<noteq> ?chunk) ?pages)"
    have run: "SerializeObjectImpl F X s obj
                = Return (reached\<lparr>cs_sink := cs_sink reached @
                    [Put (kReadOnlyHeapRef X), PutInt (unat (word_of_nat ?position :: uint32_t)),
                     PutInt (unat (word_of_nat (Offset X ?chunk obj) :: uint32_t))]\<rparr>)"
      using a by (simp add: SerializeObjectImpl_def SerializeReadOnlyObject_hit)
    have pos: "unat (word_of_nat ?position :: uint32_t) = ?position \<and> ?position < length ?pages \<and>
                ?pages ! ?position = ?chunk \<and> (\<forall>j < ?position. ?pages ! j \<noteq> ?chunk)"
      if "?chunk \<in> set ?pages" "length ?pages \<le> 2 ^ 32"
    proof -
      note first = takeWhile_first_index [OF that(1)]
      then have "?position < 2 ^ 32" using that(2) by simp
      then have "unat (word_of_nat ?position :: uint32_t) = ?position"
        by (simp add: unat_of_nat)
      with first show ?thesis by simp
    qed
    show "let chunk = BasicMemoryChunk_FromAddress X obj;
               pages = read_only_space_pages (cs_isolate reached);
               position = length (takeWhile (\<lambda>p. p \<noteq> chunk) pages);
               chunk_index = (word_of_nat position :: uint32_t);
               chunk_offset = (word_of_nat (Offset X chunk obj) :: uint32_t)
           in SerializeObjectImpl F X s obj
                = Return (reached\<lparr>cs_sink := cs_sink reached @
                    [Put (kReadOnlyHeapRef X), PutInt (unat chunk_index),
                     PutInt (unat chunk_offset)]\<rparr>) \<and>
              (chunk \<in> set pages \<and> length pages \<le> 2 ^ 32
                 \<longrightarrow> unat chunk_index = position \<and> position < length pages \<and>
                     pages ! position = chunk \<and> (\<forall>j < position. pages ! j \<noteq> chunk))"
      unfolding Let_def using run pos by blast
  qed
  have c_generic: "(SerializeHotObject X s obj = (False, after_hot) \<and> SerializeRoot X after_hot obj = (False, after_root) \<and>
    SerializeBackReference X after_root obj = (False, reached) \<and>
    \<not> ReadOnlyHeap_Contains X (cs_isolate reached) obj
      \<longrightarrow> SerializeObjectImpl F X s obj =
           (let h = the_heap reached; rts = roots (cs_isolate reached) in
            if IsCode h obj then Fatal reached
            else if ElideObject X reached obj then SerializeObject X reached (undefined_value rts)
            else if IsScript h obj then
              (case ObjectSerializer_Serialize X
                      (update_heap
                         (\<lambda>_. WRITE_FIELD
                                 (WRITE_FIELD h obj kContextDataOffset
                                    (if context_data h obj = uninitialized_symbol rts
                                     then uninitialized_symbol rts else undefined_value rts))
                                 obj kHostDefinedOptionsOffset (empty_fixed_array rts))
                         reached) obj of
                 Fatal t \<Rightarrow> Fatal t
               | Return t \<Rightarrow>
                   Return (update_heap
                             (\<lambda>h'. WRITE_FIELD
                                     (WRITE_FIELD h' obj kHostDefinedOptionsOffset
                                        (host_defined_options h obj))
                                     obj kContextDataOffset (context_data h obj)) t))
            else if IsSharedFunctionInfo h obj then
              (if \<not> HasDebugInfo h obj then ObjectSerializer_Serialize X reached obj
               else
                 (let debug_info = GetDebugInfo h obj in
                  case ObjectSerializer_Serialize X
                         (update_heap
                            (\<lambda>_. WRITE_FIELD
                                    (if HasInstrumentedBytecodeArray h debug_info
                                     then WRITE_FIELD h obj kFunctionDataOffset
                                            (OriginalBytecodeArray h debug_info)
                                     else h)
                                    obj kScriptOrDebugInfoOffset (DebugInfo_script h debug_info))
                            reached) obj of
                    Fatal t \<Rightarrow> Fatal t
                  | Return t \<Rightarrow>
                      Return (update_heap
                                (\<lambda>h'. if HasInstrumentedBytecodeArray h debug_info
                                      then WRITE_FIELD
                                             (WRITE_FIELD h' obj kScriptOrDebugInfoOffset debug_info)
                                             obj kFunctionDataOffset (DebugBytecodeArray h debug_info)
                                      else WRITE_FIELD h' obj kScriptOrDebugInfoOffset debug_info) t)))
            else
              (let target = (if \<not> V8_TARGET_ARCH_ARM F \<and> FLAG_interpreted_frames_native_stack F \<and>
                                IsInterpreterData h obj
                             then InterpreterData_bytecode_array h obj else obj)
               in if IsMap h target \<or> IsJSGlobalProxy h target \<or> IsJSGlobalObject h target \<or>
                     (NeedsRehashing X h target \<and> \<not> CanBeRehashed X h target) \<or>
                     IsJSFunction h target \<or> IsContext h target
                  then Fatal reached else ObjectSerializer_Serialize X reached target)))"
    by (rule impI, elim conjE, rule SerializeObjectImpl_generic_run; assumption)
  have c_ordinary: "(SerializeHotObject X s obj = (False, after_hot) \<and> SerializeRoot X after_hot obj = (False, after_root) \<and>
    SerializeBackReference X after_root obj = (False, reached) \<and>
    \<not> ReadOnlyHeap_Contains X (cs_isolate reached) obj \<and>
    \<not> IsCode (the_heap reached) obj \<and> \<not> ElideObject X reached obj \<and>
    \<not> IsScript (the_heap reached) obj \<and> \<not> IsSharedFunctionInfo (the_heap reached) obj \<and>
    \<not> IsInterpreterData (the_heap reached) obj \<and> \<not> IsMap (the_heap reached) obj \<and>
    \<not> IsJSGlobalProxy (the_heap reached) obj \<and> \<not> IsJSGlobalObject (the_heap reached) obj \<and>
    (NeedsRehashing X (the_heap reached) obj \<longrightarrow> CanBeRehashed X (the_heap reached) obj) \<and>
    \<not> IsJSFunction (the_heap reached) obj \<and> \<not> IsContext (the_heap reached) obj
      \<longrightarrow> SerializeObjectImpl F X s obj = ObjectSerializer_Serialize X reached obj)"
    by (rule impI, elim conjE, rule SerializeObjectImpl_ordinary; assumption)
  show ?thesis
    by (rule conjI [OF c_hot conjI [OF c_root conjI [OF c_back conjI [OF c_ro
        conjI [OF c_generic c_ordinary]]]]])
qed

theorem SerializeObjectImpl_priority_witness:
  "SerializeObjectImpl example_Flags example_SerializerExt example_CodeSerializer 71
     = Return (example_CodeSerializer\<lparr>cs_sink := [Put 0x90]\<rparr>) \<and>
   SerializeObjectImpl example_Flags example_SerializerExt example_CodeSerializer 1
     = Return (example_CodeSerializer\<lparr>cs_sink := [Put 0x10, PutInt 1]\<rparr>) \<and>
   SerializeObjectImpl example_Flags example_SerializerExt example_CodeSerializer 31
     = Return (example_CodeSerializer\<lparr>cs_sink := [Put 0x20, PutInt 31]\<rparr>) \<and>
   SerializeObjectImpl example_Flags example_SerializerExt example_CodeSerializer 261
     = Return (example_CodeSerializer\<lparr>cs_sink := [Put 8, PutInt 1, PutInt 5]\<rparr>) \<and>
   SerializeObjectImpl example_Flags example_SerializerExt example_CodeSerializer 40
     = Fatal example_CodeSerializer \<and>
   SerializeObjectImpl example_Flags example_SerializerExt example_CodeSerializer 30
     = Fatal example_CodeSerializer \<and>
   SerializeObjectImpl example_Flags example_SerializerExt example_CodeSerializer 72
     = ObjectSerializer_Serialize example_SerializerExt example_CodeSerializer 72 \<and>
   SerializeObjectImpl example_Flags example_SerializerExt example_CodeSerializer 72
     = Return (example_CodeSerializer
         \<lparr>cs_sink := [PutInt 0, PutInt 0, PutInt 0, PutInt 0, PutInt 0]\<rparr>) \<and>
   is_Return (SerializeObjectImpl example_Flags example_SerializerExt example_CodeSerializer 20) \<and>
   cs_sink (exit_state
      (SerializeObjectImpl example_Flags example_SerializerExt example_CodeSerializer 20))
     = [PutInt 1, PutInt 3, PutInt 10, PutInt 0, PutInt 0] \<and>
   is_Return (SerializeObjectImpl example_Flags example_SerializerExt example_CodeSerializer 50) \<and>
   cs_sink (exit_state
      (SerializeObjectImpl example_Flags example_SerializerExt example_CodeSerializer 50))
     = [PutInt 0, PutInt 0, PutInt 0, PutInt 20, PutInt 71]"
proof -
  note at = SerializeObjectImpl_priority [where F = example_Flags and X = example_SerializerExt
      and s = example_CodeSerializer]
  have c_hot: "SerializeObjectImpl example_Flags example_SerializerExt example_CodeSerializer 71
     = Return (example_CodeSerializer\<lparr>cs_sink := [Put 0x90]\<rparr>)"
    using at [where obj = 71 and after_hot = "example_CodeSerializer\<lparr>cs_sink := [Put 0x90]\<rparr>",
      THEN conjunct1]
    by (simp add: example_serializer_defs)
  have c_root: "SerializeObjectImpl example_Flags example_SerializerExt example_CodeSerializer 1
     = Return (example_CodeSerializer\<lparr>cs_sink := [Put 0x10, PutInt 1]\<rparr>)"
    using at [where obj = 1 and after_hot = example_CodeSerializer
      and after_root = "example_CodeSerializer\<lparr>cs_sink := [Put 0x10, PutInt 1]\<rparr>",
      THEN conjunct2, THEN conjunct1]
    by (simp add: example_serializer_defs)
  have c_back: "SerializeObjectImpl example_Flags example_SerializerExt example_CodeSerializer 31
     = Return (example_CodeSerializer\<lparr>cs_sink := [Put 0x20, PutInt 31]\<rparr>)"
    using at [where obj = 31 and after_hot = example_CodeSerializer
      and after_root = example_CodeSerializer
      and reached = "example_CodeSerializer\<lparr>cs_sink := [Put 0x20, PutInt 31]\<rparr>",
      THEN conjunct2, THEN conjunct2, THEN conjunct1]
    by (simp add: example_serializer_defs)
  have c_ro: "SerializeObjectImpl example_Flags example_SerializerExt example_CodeSerializer 261
     = Return (example_CodeSerializer\<lparr>cs_sink := [Put 8, PutInt 1, PutInt 5]\<rparr>)"
    using at [where obj = 261 and after_hot = example_CodeSerializer
      and after_root = example_CodeSerializer and reached = example_CodeSerializer,
      THEN conjunct2, THEN conjunct2, THEN conjunct2, THEN conjunct1]
    by (simp add: example_serializer_defs Let_def)
  have c_code: "SerializeObjectImpl example_Flags example_SerializerExt example_CodeSerializer 40
     = Fatal example_CodeSerializer"
    using at [where obj = 40 and after_hot = example_CodeSerializer
      and after_root = example_CodeSerializer and reached = example_CodeSerializer,
      THEN conjunct2, THEN conjunct2, THEN conjunct2, THEN conjunct2, THEN conjunct1]
    by (simp add: example_serializer_defs IsCode_def Let_def)
  have c_context: "SerializeObjectImpl example_Flags example_SerializerExt example_CodeSerializer 30
     = Fatal example_CodeSerializer"
    using at [where obj = 30 and after_hot = example_CodeSerializer
      and after_root = example_CodeSerializer and reached = example_CodeSerializer,
      THEN conjunct2, THEN conjunct2, THEN conjunct2, THEN conjunct2, THEN conjunct1]
    by (simp add: example_serializer_defs IsCode_def IsScript_def IsSharedFunctionInfo_def
        IsInterpreterData_def IsMap_def IsJSGlobalProxy_def IsJSGlobalObject_def
        IsJSFunction_def IsContext_def Let_def)
  have c_ordinary: "SerializeObjectImpl example_Flags example_SerializerExt example_CodeSerializer 72
     = ObjectSerializer_Serialize example_SerializerExt example_CodeSerializer 72"
    using at [where obj = 72 and after_hot = example_CodeSerializer
      and after_root = example_CodeSerializer and reached = example_CodeSerializer,
      THEN conjunct2, THEN conjunct2, THEN conjunct2, THEN conjunct2, THEN conjunct2]
    by (simp add: example_serializer_defs IsCode_def IsScript_def IsSharedFunctionInfo_def
        IsInterpreterData_def IsMap_def IsJSGlobalProxy_def IsJSGlobalObject_def
        IsJSFunction_def IsContext_def)
  have c_encoded: "SerializeObjectImpl example_Flags example_SerializerExt example_CodeSerializer 72
     = Return (example_CodeSerializer
         \<lparr>cs_sink := [PutInt 0, PutInt 0, PutInt 0, PutInt 0, PutInt 0]\<rparr>)"
    unfolding c_ordinary
    by (simp add: example_serializer_defs IsCode_def READ_FIELD_def)
  have c_script: "is_Return (SerializeObjectImpl example_Flags example_SerializerExt example_CodeSerializer 20) \<and>
   cs_sink (exit_state
      (SerializeObjectImpl example_Flags example_SerializerExt example_CodeSerializer 20))
     = [PutInt 1, PutInt 3, PutInt 10, PutInt 0, PutInt 0]"
    using at [where obj = 20 and after_hot = example_CodeSerializer
      and after_root = example_CodeSerializer and reached = example_CodeSerializer,
      THEN conjunct2, THEN conjunct2, THEN conjunct2, THEN conjunct2, THEN conjunct1]
    by (simp add: example_serializer_defs IsCode_def IsScript_def context_data_def
        host_defined_options_def update_heap_def READ_FIELD_def WRITE_FIELD_def Let_def)
  have c_function: "is_Return (SerializeObjectImpl example_Flags example_SerializerExt example_CodeSerializer 50) \<and>
   cs_sink (exit_state
      (SerializeObjectImpl example_Flags example_SerializerExt example_CodeSerializer 50))
     = [PutInt 0, PutInt 0, PutInt 0, PutInt 20, PutInt 71]"
    using at [where obj = 50 and after_hot = example_CodeSerializer
      and after_root = example_CodeSerializer and reached = example_CodeSerializer,
      THEN conjunct2, THEN conjunct2, THEN conjunct2, THEN conjunct2, THEN conjunct1]
    by (simp add: example_serializer_defs IsCode_def IsScript_def IsSharedFunctionInfo_def
        HasDebugInfo_def GetDebugInfo_def script_or_debug_info_def
        HasInstrumentedBytecodeArray_def DebugBytecodeArray_def OriginalBytecodeArray_def
        DebugInfo_script_def update_heap_def READ_FIELD_def WRITE_FIELD_def Let_def)
  show ?thesis
    by (rule conjI [OF c_hot conjI [OF c_root conjI [OF c_back conjI [OF c_ro conjI [OF c_code
        conjI [OF c_context conjI [OF c_ordinary conjI [OF c_encoded
        conjI [OF c_script [THEN conjunct1] conjI [OF c_script [THEN conjunct2]
        c_function]]]]]]]]]])
qed

end
